theory Spec2Isabelle
  imports Complex_Main "HOL-Library.Word"
begin

section \<open>Thrown values and configuration (src/lib/env.ts)\<close>

text \<open>
  What a JavaScript \<open>throw\<close> (or a rejected promise) carries: an \<open>Error\<close> object with
  its message, or some other value. A computation that may throw returns
  \<open>thrown + 'a\<close>, with \<open>Inl\<close> for the throw.
\<close>

datatype thrown = Error string | NonError

text \<open>\<open>error instanceof Error ? error.message : "Unknown error"\<close>\<close>

definition errorMessage :: "thrown \<Rightarrow> string" where
  "errorMessage t = (case t of Error m \<Rightarrow> m | NonError \<Rightarrow> ''Unknown error'')"

text \<open>
  \<open>assertEnv\<close>: \<open>value ?? fallback\<close>, and a throw when the result is undefined or the
  empty string.
\<close>

definition assertEnv :: "string option \<Rightarrow> string \<Rightarrow> string option \<Rightarrow> thrown + string" where
  "assertEnv v name fallback =
     (let resolved = (case v of Some x \<Rightarrow> Some x | None \<Rightarrow> fallback);
          missing = Inl (Error (''Missing required environment variable: '' @ name @
            ''. Please ensure it is set in your .env file and restart the development server.''))
      in case resolved of
           None \<Rightarrow> missing
         | Some r \<Rightarrow> if r = [] then missing else Inr r)"

record publicEnv =
  NEXT_PUBLIC_SOLANA_DEVNET_RPC :: "string option"
  NEXT_PUBLIC_USDC_MINT_DEVNET :: "string option"

definition requireRpc :: "publicEnv \<Rightarrow> thrown + string" where
  "requireRpc env =
     assertEnv (NEXT_PUBLIC_SOLANA_DEVNET_RPC env) ''NEXT_PUBLIC_SOLANA_DEVNET_RPC'' None"

definition requireMint :: "publicEnv \<Rightarrow> thrown + string" where
  "requireMint env =
     assertEnv (NEXT_PUBLIC_USDC_MINT_DEVNET env) ''NEXT_PUBLIC_USDC_MINT_DEVNET'' None"

section \<open>Byte codec (src/hooks/useTransfer.ts)\<close>

text \<open>
  A JavaScript string is modelled as a \<open>string\<close> whose characters are code units
  below 256; a \<open>Uint8Array\<close> (and a \<open>Buffer\<close>) is a list of 8-bit words.
\<close>

type_synonym byte = "8 word"

subsection \<open>\<open>parseInt(s, 16)\<close>\<close>

text \<open>
  The white space that \<open>parseInt\<close> skips, among the code units below 256:
  TAB, LF, VT, FF, CR, SP and NBSP.
\<close>

definition isStrWhiteSpaceChar :: "char \<Rightarrow> bool" where
  "isStrWhiteSpaceChar c = (of_char c \<in> {9, 10, 11, 12, 13, 32, 160 :: nat})"

definition isHexDigit :: "char \<Rightarrow> bool" where
  "isHexDigit c =
     (let n = of_char c :: nat
      in (48 \<le> n \<and> n \<le> 57) \<or> (97 \<le> n \<and> n \<le> 102) \<or> (65 \<le> n \<and> n \<le> 70))"

definition hexDigitValue :: "char \<Rightarrow> nat" where
  "hexDigitValue c =
     (let n = of_char c :: nat
      in if 48 \<le> n \<and> n \<le> 57 then n - 48
         else if 97 \<le> n \<and> n \<le> 102 then n - 87
         else if 65 \<le> n \<and> n \<le> 70 then n - 55
         else 0)"

definition hexValue :: "string \<Rightarrow> nat" where
  "hexValue z = foldl (\<lambda>acc c. 16 * acc + hexDigitValue c) 0 z"

text \<open>
  \<open>parseInt(s, 16)\<close>: skip leading white space, read an optional sign, drop one
  \<open>0x\<close> or \<open>0X\<close>, then read the longest run of hexadecimal digits. \<open>None\<close> is
  \<open>NaN\<close> (no digit was read).
\<close>

definition parseInt16 :: "string \<Rightarrow> int option" where
  "parseInt16 s =
     (let S = dropWhile isStrWhiteSpaceChar s;
          sign = (if S \<noteq> [] \<and> hd S = CHR ''-'' then - 1 else 1 :: int);
          S1 = (if S \<noteq> [] \<and> (hd S = CHR ''+'' \<or> hd S = CHR ''-'') then tl S else S);
          S2 = (if take 2 S1 = ''0x'' \<or> take 2 S1 = ''0X'' then drop 2 S1 else S1);
          Z = takeWhile isHexDigit S2
      in if Z = [] then None else Some (sign * int (hexValue Z)))"

subsection \<open>\<open>Uint8Array\<close>\<close>

text \<open>
  Storing a number in a \<open>Uint8Array\<close> converts it with \<open>ToUint8\<close>: \<open>NaN\<close> becomes 0
  and an integer is taken modulo 256. A store at an index outside the array is ignored.
\<close>

definition toUint8 :: "int option \<Rightarrow> byte" where
  "toUint8 v = (case v of None \<Rightarrow> 0 | Some i \<Rightarrow> word_of_int i)"

definition typedArraySet :: "byte list \<Rightarrow> nat \<Rightarrow> byte \<Rightarrow> byte list" where
  "typedArraySet bytes k v = (if k < length bytes then bytes[k := v] else bytes)"

definition substring :: "string \<Rightarrow> nat \<Rightarrow> nat \<Rightarrow> string" where
  "substring s i j = take (j - i) (drop i s)"

subsection \<open>\<open>hexToUint8Array\<close>\<close>

text \<open>
  \<^verbatim>\<open>for (let i = 0; i < cleanHex.length; i += 2) {
    bytes[i / 2] = parseInt(cleanHex.substring(i, i + 2), 16); }\<close>
\<close>

function hexLoop :: "string \<Rightarrow> nat \<Rightarrow> byte list \<Rightarrow> byte list" where
  "hexLoop cleanHex i bytes =
     (if i < length cleanHex
      then hexLoop cleanHex (i + 2)
             (typedArraySet bytes (i div 2) (toUint8 (parseInt16 (substring cleanHex i (i + 2)))))
      else bytes)"
  by pat_completeness auto
termination
  by (relation "measure (\<lambda>(cleanHex, i, bytes). length cleanHex - i)") auto

declare hexLoop.simps [simp del]

definition stripHexPrefix :: "string \<Rightarrow> string" where
  "stripHexPrefix hex = (if take 2 hex = ''0x'' then drop 2 hex else hex)"

text \<open>
  \<open>new Uint8Array(cleanHex.length / 2)\<close> truncates a fractional length (\<open>ToIndex\<close>),
  so an odd number of characters gives \<open>length div 2\<close> zero bytes.
\<close>

definition hexToUint8Array :: "string \<Rightarrow> byte list" where
  "hexToUint8Array hex =
     (let cleanHex = stripHexPrefix hex;
          bytes = replicate (length cleanHex div 2) 0
      in hexLoop cleanHex 0 bytes)"

subsection \<open>The hex encoding of the serialized message\<close>

text \<open>
  \<^verbatim>\<open>`0x${Array.from(serializedMessage)
      .map((byte) => byte.toString(16).padStart(2, "0")).join("")}`\<close>
\<close>

definition hexDigit :: "nat \<Rightarrow> char" where
  "hexDigit n = ''0123456789abcdef'' ! n"

function toString16 :: "nat \<Rightarrow> string" where
  "toString16 n = (if n < 16 then [hexDigit n] else toString16 (n div 16) @ [hexDigit (n mod 16)])"
  by pat_completeness auto
termination
  by (relation "measure id") auto

declare toString16.simps [simp del]

definition padStart2 :: "string \<Rightarrow> string" where
  "padStart2 s = replicate (2 - length s) CHR ''0'' @ s"

definition byteToHex :: "byte \<Rightarrow> string" where
  "byteToHex b = padStart2 (toString16 (unat b))"

definition encodeHex :: "byte list \<Rightarrow> string" where
  "encodeHex bytes = ''0x'' @ concat (map byteToHex bytes)"

text \<open>
  The decoder read as a plain recursion over pairs of characters; \<open>hexLoop\<close> is
  shown below to compute it.
\<close>

fun decodePairs :: "string \<Rightarrow> byte list" where
  "decodePairs (a # b # rest) = toUint8 (parseInt16 [a, b]) # decodePairs rest"
| "decodePairs _ = []"

section \<open>JavaScript numbers\<close>

text \<open>
  A finite JavaScript number is modelled by the rational it denotes, and every
  arithmetic operation rounds its exact result to the nearest IEEE 754 double
  (binary64, 53 significant bits, ties to the even significand, gradual underflow
  below \<open>2\<^sup>-\<^sup>1\<^sup>0\<^sup>2\<^sup>2\<close>). \<open>NaN\<close> is \<open>None\<close> where it can arise. Overflow to
  \<open>Infinity\<close> is outside the model: it needs magnitudes of \<open>2\<^sup>1\<^sup>0\<^sup>2\<^sup>4\<close>, and the
  theorems below bound the numbers they speak about.
\<close>

function bitLength :: "int \<Rightarrow> nat" where
  "bitLength n = (if n \<le> 0 then 0 else Suc (bitLength (n div 2)))"
  by pat_completeness auto
termination
  by (relation "measure nat") auto

declare bitLength.simps [simp del]

definition pow2 :: "int \<Rightarrow> rat" where
  "pow2 e = (if 0 \<le> e then 2 ^ nat e else 1 / 2 ^ nat (- e))"

definition roundHalfEven :: "rat \<Rightarrow> int" where
  "roundHalfEven x =
     (let f = \<lfloor>x\<rfloor>; d = x - of_int f
      in if d < 1 / 2 then f else if 1 / 2 < d then f + 1 else if even f then f else f + 1)"

text \<open>
  The exponent \<open>e\<close> of the unit in the last place of a positive \<open>x\<close>:
  \<open>2\<^sup>5\<^sup>2 \<le> x / 2\<^sup>e < 2\<^sup>5\<^sup>3\<close>, and never below \<open>-1074\<close>.
\<close>

definition doubleExponent :: "rat \<Rightarrow> int" where
  "doubleExponent x =
     (let (p, q) = quotient_of x;
          e0 = int (bitLength p) - int (bitLength q) - 53;
          e = (if x / pow2 e0 < 2 ^ 53 then e0 else e0 + 1)
      in max e (- 1074))"

definition roundDouble :: "rat \<Rightarrow> rat" where
  "roundDouble x =
     (if x = 0 then 0
      else let e = doubleExponent \<bar>x\<bar>
           in sgn x * of_int (roundHalfEven (\<bar>x\<bar> / pow2 e)) * pow2 e)"

definition jsAdd :: "rat \<Rightarrow> rat \<Rightarrow> rat" where
  "jsAdd a b = roundDouble (a + b)"

definition jsMul :: "rat \<Rightarrow> rat \<Rightarrow> rat" where
  "jsMul a b = roundDouble (a * b)"

text \<open>A decimal literal of the source, or a decimal numeral in JSON, read as a number.\<close>

definition jsLiteral :: "rat \<Rightarrow> rat" where
  "jsLiteral d = roundDouble d"

definition mathFloor :: "rat \<Rightarrow> int" where
  "mathFloor x = \<lfloor>x\<rfloor>"

subsection \<open>Decimal digits\<close>

definition isDecimalDigit :: "char \<Rightarrow> bool" where
  "isDecimalDigit c = (let n = of_char c :: nat in 48 \<le> n \<and> n \<le> 57)"

definition decimalDigit :: "int \<Rightarrow> char" where
  "decimalDigit n = ''0123456789'' ! nat n"

definition decimalDigitValue :: "char \<Rightarrow> int" where
  "decimalDigitValue c = of_char c - 48"

text \<open>The decimal digits of a non-negative integer.\<close>

function natToString :: "int \<Rightarrow> string" where
  "natToString n =
     (if n < 10 then [decimalDigit n] else natToString (n div 10) @ [decimalDigit (n mod 10)])"
  by pat_completeness auto
termination
  by (relation "measure nat") auto

declare natToString.simps [simp del]

definition digitsValue :: "string \<Rightarrow> int" where
  "digitsValue ds = foldl (\<lambda>acc c. 10 * acc + decimalDigitValue c) 0 ds"

subsection \<open>\<open>Number.prototype.toFixed(2)\<close>\<close>

text \<open>
  For \<open>x\<close> below \<open>10\<^sup>2\<^sup>1\<close> in magnitude: take the integer \<open>n\<close> with \<open>n / 100\<close> nearest to
  \<open>\<bar>x\<bar>\<close> (the larger one on a tie), print \<open>n\<close> in decimal, pad it with zeros to
  three digits, and put the point before the last two; a negative \<open>x\<close> gets a minus
  sign. From \<open>10\<^sup>2\<^sup>1\<close> on JavaScript prints an exponent instead, which is outside
  the model.
\<close>

definition toFixed2 :: "rat \<Rightarrow> string" where
  "toFixed2 x =
     (let s = (if x < 0 then ''-'' else '''');
          a = \<bar>x\<bar>;
          n = \<lfloor>a * 100 + 1 / 2\<rfloor>;
          m = natToString n;
          m' = replicate (3 - length m) CHR ''0'' @ m;
          k = length m'
      in s @ take (k - 2) m' @ ''.'' @ drop (k - 2) m')"

subsection \<open>\<open>parseFloat\<close>\<close>

text \<open>
  The exact value of the longest prefix of the form sign, digits, point, digits, after
  leading white space; \<open>None\<close> when there is no digit. Exponents and \<open>Infinity\<close> are
  not read: the strings parsed here are labels printed by \<open>toFixed2\<close>, or words.
\<close>

definition decimalPrefixValue :: "string \<Rightarrow> rat option" where
  "decimalPrefixValue s =
     (let S = dropWhile isStrWhiteSpaceChar s;
          sign = (if S \<noteq> [] \<and> hd S = CHR ''-'' then - 1 else 1 :: rat);
          S1 = (if S \<noteq> [] \<and> (hd S = CHR ''+'' \<or> hd S = CHR ''-'') then tl S else S);
          ip = takeWhile isDecimalDigit S1;
          rest = dropWhile isDecimalDigit S1;
          fp = (if rest \<noteq> [] \<and> hd rest = CHR ''.'' then takeWhile isDecimalDigit (tl rest) else [])
      in if ip = [] \<and> fp = [] then None
         else Some (sign * (of_int (digitsValue ip) + of_int (digitsValue fp) / 10 ^ length fp)))"

definition parseFloat :: "string \<Rightarrow> rat option" where
  "parseFloat s = map_option roundDouble (decimalPrefixValue s)"

section \<open>Balance aggregator (src/app/api/usdc-balance/route.ts)\<close>

text \<open>
  The reply of the ledger's \<open>getTokenAccountsByOwner\<close>: \<open>data.error\<close> (absent, or an
  error object with or without a message) and \<open>data.result?.value\<close> (absent, or the
  list of accounts, each with its \<open>uiAmount\<close>, a number or \<open>null\<close>).
\<close>

record rpcData =
  dataError :: "string option option"
  resultValue :: "rat option list option"

record rpcResponse =
  rpcOk :: bool
  rpcStatus :: nat
  rpcJson :: "thrown + rpcData"

text \<open>What the route answers: the HTTP status with the fields of the JSON body.\<close>

datatype balanceResponse =
    Success200 (balance: string)
  | Error400 string
  | Error500 string

definition isBase58Char :: "char \<Rightarrow> bool" where
  "isBase58Char c =
     (let n = of_char c :: nat
      in (49 \<le> n \<and> n \<le> 57) \<or> (65 \<le> n \<and> n \<le> 72) \<or> (74 \<le> n \<and> n \<le> 78)
         \<or> (80 \<le> n \<and> n \<le> 90) \<or> (97 \<le> n \<and> n \<le> 107) \<or> (109 \<le> n \<and> n \<le> 122))"

definition trim :: "string \<Rightarrow> string" where
  "trim s = rev (dropWhile isStrWhiteSpaceChar (rev (dropWhile isStrWhiteSpaceChar s)))"

text \<open>\<open>/^[1-9A-HJ-NP-Za-km-z]{32,44}$/.test(address.trim())\<close>\<close>

definition addressShapeOk :: "string \<Rightarrow> bool" where
  "addressShapeOk address =
     (let a = trim address in 32 \<le> length a \<and> length a \<le> 44 \<and> list_all isBase58Char a)"

text \<open>\<open>totalBalance += account...uiAmount || 0\<close>, over the accounts in order.\<close>

definition orZero :: "rat option \<Rightarrow> rat" where
  "orZero u = (case u of None \<Rightarrow> 0 | Some v \<Rightarrow> v)"

definition sumBalances :: "rat option list \<Rightarrow> rat" where
  "sumBalances accounts = foldl (\<lambda>totalBalance u. jsAdd totalBalance (orZero u)) 0 accounts"

definition totalBalance :: "rpcData \<Rightarrow> rat" where
  "totalBalance d = (case resultValue d of None \<Rightarrow> 0 | Some accounts \<Rightarrow> sumBalances accounts)"

text \<open>
  The body of the \<open>try\<close> block after the address checks. The ledger is the function
  \<open>rpc\<close> from the request (endpoint, owner address, mint) to what \<open>fetch\<close> gives.
\<close>

definition lookupBalance ::
  "publicEnv \<Rightarrow> (string \<Rightarrow> string \<Rightarrow> string \<Rightarrow> thrown + rpcResponse) \<Rightarrow> string \<Rightarrow> thrown + string" where
  "lookupBalance env rpc address =
     (case requireRpc env of Inl t \<Rightarrow> Inl t | Inr rpcUrl \<Rightarrow>
      case requireMint env of Inl t \<Rightarrow> Inl t | Inr usdcMint \<Rightarrow>
      case rpc rpcUrl (trim address) usdcMint of Inl t \<Rightarrow> Inl t | Inr response \<Rightarrow>
      if \<not> rpcOk response
      then Inl (Error (''RPC request failed with status ''
             @ natToString (int (rpcStatus response)) @ ''.''))
      else case rpcJson response of Inl t \<Rightarrow> Inl t | Inr d \<Rightarrow>
      case dataError d of
        Some (Some m) \<Rightarrow> Inl (Error (if m = [] then ''Unknown RPC error'' else m))
      | Some None \<Rightarrow> Inl (Error ''Unknown RPC error'')
      | None \<Rightarrow> Inr (toFixed2 (totalBalance d)))"

text \<open>
  \<open>POST\<close>: the request body is what \<open>request.json()\<close> gives (it may throw), with
  its \<open>address\<close> field, absent or a string.
\<close>

definition usdcBalancePOST ::
  "publicEnv \<Rightarrow> (string \<Rightarrow> string \<Rightarrow> string \<Rightarrow> thrown + rpcResponse) \<Rightarrow> thrown + string option
     \<Rightarrow> balanceResponse" where
  "usdcBalancePOST env rpc body =
     (case body of
        Inl t \<Rightarrow> Error500 (errorMessage t)
      | Inr None \<Rightarrow> Error400 ''Address is required''
      | Inr (Some address) \<Rightarrow>
          if address = [] then Error400 ''Address is required''
          else if \<not> addressShapeOk address then Error400 ''Invalid Solana address format''
          else (case lookupBalance env rpc address of
                  Inl t \<Rightarrow> Error500 (errorMessage t)
                | Inr b \<Rightarrow> Success200 b))"

section \<open>Sponsored transfer (src/hooks/useTransfer.ts)\<close>

subsection \<open>Transactions\<close>

text \<open>
  A public key is written as its address text. The two instructions the flow builds
  are kept as their arguments: \<open>createAssociatedTokenAccountInstruction(payer,
  associatedToken, owner, mint)\<close> and \<open>createTransferInstruction(source, destination,
  owner, amount)\<close>. In the token program's instruction layout the only signer of the
  first is \<open>payer\<close>, and the only signer of the second is \<open>owner\<close>.
\<close>

type_synonym pubkey = string

datatype instruction =
    CreateAssociatedTokenAccount pubkey pubkey pubkey pubkey
  | Transfer pubkey pubkey pubkey int

fun instructionSigners :: "instruction \<Rightarrow> pubkey list" where
  "instructionSigners (CreateAssociatedTokenAccount payer associatedToken owner mint) = [payer]"
| "instructionSigners (Transfer source destination owner amount) = [owner]"

text \<open>
  A \<open>Transaction\<close> object: the fields the flow touches. \<open>new Transaction()\<close> has no
  instruction, no blockhash, no fee payer and no signature.
\<close>

record transaction =
  instructions :: "instruction list"
  recentBlockhash :: "string option"
  feePayer :: "pubkey option"
  signatures :: "(pubkey \<times> byte list) list"

definition newTransaction :: transaction where
  "newTransaction = \<lparr>instructions = [], recentBlockhash = None, feePayer = None, signatures = []\<rparr>"

definition addInstruction :: "transaction \<Rightarrow> instruction \<Rightarrow> transaction" where
  "addInstruction tx i = tx\<lparr>instructions := instructions tx @ [i]\<rparr>"

definition requiredSigners :: "transaction \<Rightarrow> pubkey list" where
  "requiredSigners tx = remdups (concat (map instructionSigners (instructions tx)))"

fun setSlot :: "pubkey \<Rightarrow> byte list \<Rightarrow> (pubkey \<times> byte list) list \<Rightarrow> (pubkey \<times> byte list) list" where
  "setSlot k v [] = [(k, v)]"
| "setSlot k v ((k', v') # slots) = (if k = k' then (k, v) # slots else (k', v') # setSlot k v slots)"

text \<open>
  \<open>transaction.addSignature(pubkey, signature)\<close> asserts that the signature has 64
  bytes and stores it in the signer's slot. (The library also rejects a key that is no
  signer of the transaction; the two keys given here are the transfer instruction's
  owner and the fee payer, which are signers.)
\<close>

definition addSignature :: "transaction \<Rightarrow> pubkey \<Rightarrow> byte list \<Rightarrow> thrown + transaction" where
  "addSignature tx pubkey sig =
     (if length sig \<noteq> 64 then Inl (Error ''Assertion failed'')
      else Inr (tx\<lparr>signatures := setSlot pubkey sig (signatures tx)\<rparr>))"

text \<open>The message of a transaction: everything except the signatures.\<close>

type_synonym message = "instruction list \<times> string option \<times> pubkey option"

definition messageOf :: "transaction \<Rightarrow> message" where
  "messageOf tx = (instructions tx, recentBlockhash tx, feePayer tx)"

subsection \<open>The outside world\<close>

text \<open>The JSON a signing request answers with, and the HTTP response around it.\<close>

record signJson =
  jsonStatus :: "string option"
  jsonSignature :: "string option"
  jsonMessage :: "string option"

record signResponse =
  responseOk :: bool
  responseJson :: "thrown + signJson"

text \<open>
  The body of a \<open>POST /api/metakeep-sign\<close>: for the account-creation transaction its
  serialized bytes (sent as base64 text) with \<open>walletId\<close>; for the sponsor's signature
  \<open>transactionObject.serializedTransactionMessage\<close> with \<open>reason\<close>.
\<close>

datatype signBody =
    SetupBody "byte list" string
  | SponsorBody string string

text \<open>
  Every awaited call that leaves the browser is an event of the attempt's trace.
  \<open>SignTransaction\<close> is the sender's \<open>sdk.signTransaction(transaction, memo)\<close>; the memo
  is \<open>Transfer <amount> USDC to User B\<close> and is kept as the amount.
\<close>

datatype event =
    GetAccountInfo pubkey
  | FetchSign signBody
  | GetLatestBlockhash
  | SignTransaction transaction rat
  | SendRawTransaction "byte list"
  | ConfirmTransaction string

text \<open>
  The collaborators, as functions from a request to what the call gives or throws:
  the Solana libraries (key parsing, address derivation, serialization; the message
  serializer is given the message only), the ledger RPC, the signing endpoint and the
  sender's signer. \<open>getAccountInfo\<close> gives \<open>True\<close> for an account and \<open>False\<close> for
  \<open>null\<close>; \<open>signTransaction\<close> gives the \<open>signature\<close> field of its answer, or \<open>None\<close>
  for an empty answer; \<open>confirmTransaction\<close> gives \<open>confirmation.value.err\<close> as JSON
  text, \<open>None\<close> for \<open>null\<close>.
\<close>

record world =
  newPublicKey :: "string \<Rightarrow> thrown + pubkey"
  getAssociatedTokenAddress :: "pubkey \<Rightarrow> pubkey \<Rightarrow> thrown + pubkey"
  serialize :: "bool \<Rightarrow> transaction \<Rightarrow> thrown + byte list"
  serializeMessage :: "message \<Rightarrow> thrown + byte list"
  getAccountInfo :: "pubkey \<Rightarrow> thrown + bool"
  getLatestBlockhash :: "thrown + string"
  sendRawTransaction :: "byte list \<Rightarrow> thrown + string"
  confirmTransaction :: "string \<Rightarrow> thrown + string option"
  fetchSign :: "signBody \<Rightarrow> thrown + signResponse"
  signTransaction :: "transaction \<Rightarrow> rat \<Rightarrow> thrown + string option"

subsection \<open>Steps that may throw and leave a trace\<close>

type_synonym 'a prog = "event list \<times> (thrown + 'a)"

definition ret :: "'a \<Rightarrow> 'a prog" where
  "ret x = ([], Inr x)"

definition throw :: "thrown \<Rightarrow> 'a prog" where
  "throw t = ([], Inl t)"

definition lib :: "thrown + 'a \<Rightarrow> 'a prog" where
  "lib r = ([], r)"

definition call :: "event \<Rightarrow> thrown + 'a \<Rightarrow> 'a prog" where
  "call e r = ([e], r)"

definition bnd :: "'a prog \<Rightarrow> ('a \<Rightarrow> 'b prog) \<Rightarrow> 'b prog" where
  "bnd m f =
     (case m of
        (es, Inl t) \<Rightarrow> (es, Inl t)
      | (es, Inr x) \<Rightarrow> (case f x of (es', r) \<Rightarrow> (es @ es', r)))"

subsection \<open>\<open>transferUSDC\<close>\<close>

record transferState =
  isTransferring :: bool
  error :: "string option"
  success :: bool

record transferResult =
  resultSignature :: string
  resultSuccess :: bool
  resultUserSignature :: string
  resultDeveloperSignature :: signJson

text \<open>Lines 70 to 76: \<open>new Transaction().add(createATAInstruction)\<close>.\<close>

definition setupTransaction :: "pubkey \<Rightarrow> pubkey \<Rightarrow> pubkey \<Rightarrow> pubkey \<Rightarrow> transaction" where
  "setupTransaction dev ata owner mint =
     (let createATAInstruction = CreateAssociatedTokenAccount dev ata owner mint
      in addInstruction newTransaction createATAInstruction)"

text \<open>Lines 70 to 89: the recipient's token account is absent.\<close>

definition createRecipientAccount :: "world \<Rightarrow> pubkey \<Rightarrow> pubkey \<Rightarrow> pubkey \<Rightarrow> pubkey \<Rightarrow> unit prog" where
  "createRecipientAccount w dev ata owner mint =
     (let ataTransaction = setupTransaction dev ata owner mint
      in bnd (lib (serialize w False ataTransaction)) (\<lambda>bytes.
         bnd (call (FetchSign (SetupBody bytes ''master''))
                (fetchSign w (SetupBody bytes ''master''))) (\<lambda>ataResponse.
         if \<not> responseOk ataResponse
         then throw (Error ''Failed to create User B USDC token account.'')
         else ret ())))"

text \<open>
  Line 92: \<open>Math.floor(amount * 1_000_000)\<close>. The instruction is taken to accept any
  integer amount.
\<close>

definition transferAmount :: "rat \<Rightarrow> int" where
  "transferAmount amount = mathFloor (jsMul amount 1000000)"

text \<open>Lines 92 to 103.\<close>

definition buildTransfer :: "world \<Rightarrow> pubkey \<Rightarrow> pubkey \<Rightarrow> pubkey \<Rightarrow> pubkey \<Rightarrow> rat \<Rightarrow> transaction prog" where
  "buildTransfer w ataA ataB userA dev amount =
     (let transferInstruction = Transfer ataA ataB userA (transferAmount amount);
          tx = addInstruction newTransaction transferInstruction
      in bnd (call GetLatestBlockhash (getLatestBlockhash w)) (\<lambda>blockhash.
         ret (tx\<lparr>recentBlockhash := Some blockhash, feePayer := Some dev\<rparr>)))"

text \<open>Lines 105 to 115.\<close>

definition senderSign :: "world \<Rightarrow> transaction \<Rightarrow> pubkey \<Rightarrow> rat \<Rightarrow> (string \<times> transaction) prog" where
  "senderSign w tx userA amount =
     bnd (call (SignTransaction tx amount) (signTransaction w tx amount)) (\<lambda>userSignature.
     case userSignature of
       None \<Rightarrow> throw (Error ''User signature was not provided by MetaKeep.'')
     | Some s \<Rightarrow>
         bnd (lib (addSignature tx userA (hexToUint8Array s))) (\<lambda>tx'.
         ret (s, tx')))"

text \<open>
  Lines 117 to 141. \<open>developerSignature.message || "..."\<close> and
  \<open>!developerSignature.signature\<close> take an absent field and the empty string alike.
\<close>

definition sponsorReason :: string where
  "sponsorReason = ''Developer gas sponsorship for USDC transfer''"

definition signatureOf :: "signJson \<Rightarrow> string option" where
  "signatureOf j =
     (if jsonStatus j \<noteq> Some ''SUCCESS'' then None
      else case jsonSignature j of None \<Rightarrow> None | Some s \<Rightarrow> if s = [] then None else Some s)"

definition failureMessage :: "signJson \<Rightarrow> string" where
  "failureMessage j =
     (case jsonMessage j of
        None \<Rightarrow> ''Developer signing failed without a message.''
      | Some m \<Rightarrow> if m = [] then ''Developer signing failed without a message.'' else m)"

definition sponsorSign :: "world \<Rightarrow> transaction \<Rightarrow> pubkey \<Rightarrow> (signJson \<times> transaction) prog" where
  "sponsorSign w tx dev =
     bnd (lib (serializeMessage w (messageOf tx))) (\<lambda>serializedMessage.
     let serializedMessageHex = encodeHex serializedMessage;
         body = SponsorBody serializedMessageHex sponsorReason
     in bnd (call (FetchSign body) (fetchSign w body)) (\<lambda>developerSignResponse.
        if \<not> responseOk developerSignResponse
        then throw (Error ''Developer signing request failed.'')
        else bnd (lib (responseJson developerSignResponse)) (\<lambda>developerSignature.
             case signatureOf developerSignature of
               None \<Rightarrow> throw (Error (failureMessage developerSignature))
             | Some s \<Rightarrow>
                 bnd (lib (addSignature tx dev (hexToUint8Array s))) (\<lambda>tx'.
                 ret (developerSignature, tx')))))"

text \<open>Lines 143 to 150.\<close>

definition submit :: "world \<Rightarrow> transaction \<Rightarrow> string prog" where
  "submit w tx =
     bnd (lib (serialize w True tx)) (\<lambda>raw.
     bnd (call (SendRawTransaction raw) (sendRawTransaction w raw)) (\<lambda>signature.
     bnd (call (ConfirmTransaction signature) (confirmTransaction w signature)) (\<lambda>err.
     case err of
       Some e \<Rightarrow> throw (Error (''Transaction failed: '' @ e))
     | None \<Rightarrow> ret signature)))"

text \<open>Lines 60 to 66: the mint, the three keys and the two token accounts.\<close>

record accounts =
  usdcMint :: pubkey
  userAPublicKey :: pubkey
  userBPublicKey :: pubkey
  devPublicKey :: pubkey
  userAATA :: pubkey
  userBATA :: pubkey

definition resolveAccounts :: "world \<Rightarrow> publicEnv \<Rightarrow> string \<Rightarrow> string \<Rightarrow> string \<Rightarrow> accounts prog" where
  "resolveAccounts w env userAWallet userBWallet devWallet =
     bnd (lib (requireMint env)) (\<lambda>mintAddress.
     bnd (lib (newPublicKey w mintAddress)) (\<lambda>mint.
     bnd (lib (newPublicKey w userAWallet)) (\<lambda>userA.
     bnd (lib (newPublicKey w userBWallet)) (\<lambda>userB.
     bnd (lib (newPublicKey w devWallet)) (\<lambda>dev.
     bnd (lib (getAssociatedTokenAddress w mint userA)) (\<lambda>ataA.
     bnd (lib (getAssociatedTokenAddress w mint userB)) (\<lambda>ataB.
     ret \<lparr>usdcMint = mint, userAPublicKey = userA, userBPublicKey = userB,
          devPublicKey = dev, userAATA = ataA, userBATA = ataB\<rparr>)))))))"

text \<open>Lines 68 to 90.\<close>

definition ensureRecipientAccount :: "world \<Rightarrow> accounts \<Rightarrow> unit prog" where
  "ensureRecipientAccount w k =
     bnd (call (GetAccountInfo (userBATA k)) (getAccountInfo w (userBATA k))) (\<lambda>userBATAInfo.
     if \<not> userBATAInfo
     then createRecipientAccount w (devPublicKey k) (userBATA k) (userBPublicKey k) (usdcMint k)
     else ret ())"

text \<open>The body of the \<open>try\<close> block.\<close>

definition transferAttempt ::
  "world \<Rightarrow> publicEnv \<Rightarrow> string \<Rightarrow> string \<Rightarrow> string \<Rightarrow> rat \<Rightarrow> transferResult prog" where
  "transferAttempt w env userAWallet userBWallet devWallet amount =
     bnd (resolveAccounts w env userAWallet userBWallet devWallet) (\<lambda>k.
     bnd (ensureRecipientAccount w k) (\<lambda>_.
     bnd (buildTransfer w (userAATA k) (userBATA k) (userAPublicKey k) (devPublicKey k) amount) (\<lambda>tx.
     bnd (senderSign w tx (userAPublicKey k) amount) (\<lambda>(userSignature, tx1).
     bnd (sponsorSign w tx1 (devPublicKey k)) (\<lambda>(developerSignature, tx2).
     bnd (submit w tx2) (\<lambda>signature.
     ret \<lparr>resultSignature = signature, resultSuccess = True,
          resultUserSignature = userSignature,
          resultDeveloperSignature = developerSignature\<rparr>))))))"

text \<open>
  \<open>transferUSDC\<close>: the trace of the attempt, the states given to \<open>setTransferState\<close>
  in order, and what the call returns or throws. The amount is the one the caller
  passes, as the app's handler does; the default value of the parameter, which is read
  from the configuration before the first line of the body runs, is not part of it.
\<close>

record outcome =
  events :: "event list"
  states :: "transferState list"
  result :: "thrown + transferResult"

text \<open>The state the hook starts with (\<open>useState\<close>, lines 41 to 45).\<close>

definition initialTransferState :: transferState where
  "initialTransferState = \<lparr>isTransferring = False, error = None, success = False\<rparr>"

definition transferUSDC ::
  "world \<Rightarrow> publicEnv \<Rightarrow> string \<Rightarrow> string \<Rightarrow> string \<Rightarrow> rat \<Rightarrow> outcome" where
  "transferUSDC w env userAWallet userBWallet devWallet amount =
     (let started = \<lparr>isTransferring = True, error = None, success = False\<rparr>;
          attempt = transferAttempt w env userAWallet userBWallet devWallet amount
      in case snd attempt of
           Inr r \<Rightarrow>
             \<lparr>events = fst attempt,
              states = [started, \<lparr>isTransferring = False, error = None, success = True\<rparr>],
              result = Inr r\<rparr>
         | Inl t \<Rightarrow>
             \<lparr>events = fst attempt,
              states = [started,
                \<lparr>isTransferring = False, error = Some (errorMessage t), success = False\<rparr>],
              result = Inl t\<rparr>)"

section \<open>Balance labels and the transfer gate\<close>

subsection \<open>\<open>fetchUSDCBalance\<close> and \<open>refreshBalances\<close> (src/hooks/useWalletBalances.ts)\<close>

text \<open>
  \<open>fetchUSDCBalance\<close> turns the route's answer into a label; an answer that is not
  \<open>ok\<close> makes it throw.
\<close>

definition fetchUSDCBalance :: "balanceResponse \<Rightarrow> thrown + string" where
  "fetchUSDCBalance response =
     (case response of
        Success200 b \<Rightarrow> Inr (b @ '' USDC'')
      | Error400 m \<Rightarrow> Inl (Error ''Unable to fetch USDC balance.'')
      | Error500 m \<Rightarrow> Inl (Error ''Unable to fetch USDC balance.''))"

text \<open>
  \<open>refreshBalances\<close> awaits six lookups together; \<open>balances.userA.usdc\<close> becomes the
  sender's label when all of them succeed, and \<open>Error\<close> when any of them throws.
\<close>

definition refreshedLabel :: "bool \<Rightarrow> thrown + string \<Rightarrow> string" where
  "refreshedLabel othersSucceed userAUsdc =
     (case userAUsdc of
        Inl t \<Rightarrow> ''Error''
      | Inr label \<Rightarrow> if othersSucceed then label else ''Error'')"

subsection \<open>The gate (src/components/WalletCard.tsx, \<open>MetaKeepApp\<close>)\<close>

text \<open>\<open>label.replace(" USDC", "")\<close>: the first occurrence of the pattern is replaced.\<close>

fun replaceFirst :: "string \<Rightarrow> string \<Rightarrow> string \<Rightarrow> string" where
  "replaceFirst pat rep [] = (if pat = [] then rep else [])"
| "replaceFirst pat rep (c # cs) =
     (if take (length pat) (c # cs) = pat then rep @ drop (length pat) (c # cs)
      else c # replaceFirst pat rep cs)"

text \<open>
  \<open>Number(process.env.NEXT_PUBLIC_TRANSFER_AMOUNT) || 0.01\<close>; the argument is the
  number read from the variable, \<open>None\<close> for \<open>NaN\<close> (the variable is unset or no number).
\<close>

definition configuredTransferAmount :: "rat option \<Rightarrow> rat" where
  "configuredTransferAmount envNumber =
     (case envNumber of
        None \<Rightarrow> jsLiteral (1 / 100)
      | Some v \<Rightarrow> if v = 0 then jsLiteral (1 / 100) else v)"

text \<open>
  The effect that watches \<open>balances.userA?.usdc\<close> (lines 144 to 161): the value of
  \<open>hasInsufficientUSDC\<close> after it ran, given the value previous.
\<close>

definition hasInsufficientUSDC :: "string option \<Rightarrow> rat \<Rightarrow> bool \<Rightarrow> bool" where
  "hasInsufficientUSDC userABalanceLabel configured previous =
     (case userABalanceLabel of
        None \<Rightarrow> previous
      | Some label \<Rightarrow>
          if label = [] \<or> label = ''Loading...'' then previous
          else (case parseFloat (replaceFirst '' USDC'' [] label) of
                  None \<Rightarrow> True
                | Some balanceValue \<Rightarrow> balanceValue < configured))"

datatype statusType = Info | Succeeded | Failed | Warning

text \<open>
  \<open>handleTransferUSDC\<close> (lines 214 to 270): the trace of external calls and the
  statuses it sets, in order. \<open>hasConnection\<close> and \<open>hasSdk\<close> say that the
  connection and the SDK are there; an empty wallet address counts as missing. Timers
  are left out.
\<close>

definition handleTransferUSDC ::
  "bool \<Rightarrow> bool \<Rightarrow> bool \<Rightarrow> world \<Rightarrow> publicEnv \<Rightarrow> string \<Rightarrow> string \<Rightarrow> string \<Rightarrow> rat
     \<Rightarrow> event list \<times> (string \<times> statusType) list" where
  "handleTransferUSDC hasConnection hasSdk insufficient w env userAWallet userBWallet devWallet
       configured =
     (if \<not> (hasConnection \<and> hasSdk \<and> userAWallet \<noteq> [] \<and> userBWallet \<noteq> [] \<and> devWallet \<noteq> [])
      then ([], [(''Missing wallet or connection details. Please initialize the experience again.'',
                  Failed)])
      else if insufficient
      then ([], [(''User A has insufficient USDC on devnet. Please fund this wallet to continue.'',
                  Failed)])
      else let out = transferUSDC w env userAWallet userBWallet devWallet configured
           in (events out,
               [(''Starting USDC transfer...'', Info),
                (case result out of
                   Inr r \<Rightarrow> (''Transfer successful! Transaction: '' @ resultSignature r, Succeeded)
                 | Inl t \<Rightarrow> (''Transfer failed: '' @ errorMessage t, Failed))]))"

section \<open>Notions used in the claims\<close>

text \<open>
  The sponsor's signing call reports failure: the HTTP response is not \<open>ok\<close>, or its
  JSON has a status other than \<open>SUCCESS\<close>, or no signature field.
\<close>

definition sponsorReportsFailure :: "signResponse \<Rightarrow> bool" where
  "sponsorReportsFailure r =
     (\<not> responseOk r \<or>
      (case responseJson r of
         Inl t \<Rightarrow> False
       | Inr j \<Rightarrow> jsonStatus j \<noteq> Some ''SUCCESS'' \<or> jsonSignature j = None))"

text \<open>The message of the error that such a response makes the attempt throw.\<close>

definition sponsorFailureMessage :: "signResponse \<Rightarrow> string" where
  "sponsorFailureMessage r =
     (if \<not> responseOk r then ''Developer signing request failed.''
      else case responseJson r of Inl t \<Rightarrow> errorMessage t | Inr j \<Rightarrow> failureMessage j)"

text \<open>The request that asks the sponsor to sign a transaction, when its message serializes.\<close>

definition sponsorBody :: "world \<Rightarrow> transaction \<Rightarrow> signBody option" where
  "sponsorBody w tx =
     (case serializeMessage w (messageOf tx) of
        Inl t \<Rightarrow> None
      | Inr bytes \<Rightarrow> Some (SponsorBody (encodeHex bytes) sponsorReason))"

section \<open>Test doubles\<close>

text \<open>
  Concrete collaborators to run the flow on. The serializer refuses a transaction
  without a recent blockhash or without a fee payer, as \<open>@solana/web3.js\<close> does; its
  bytes are a stand-in (the number of signatures, then one tag per instruction).
\<close>

definition demoEnv :: publicEnv where
  "demoEnv = \<lparr>NEXT_PUBLIC_SOLANA_DEVNET_RPC = Some ''https://api.devnet.solana.com'',
     NEXT_PUBLIC_USDC_MINT_DEVNET = Some ''4zMMC9srt5Ri5X14GAgXhaHii3GnPAEERYPJgZJDncDU''\<rparr>"

definition demoOwner :: string where
  "demoOwner = ''9xQeWvG816bUx9EPjHmaT23yvVM2ZWbrrpZb9PusVFin''"

definition ledgerWith :: "rat option list \<Rightarrow> string \<Rightarrow> string \<Rightarrow> string \<Rightarrow> thrown + rpcResponse" where
  "ledgerWith accts url owner mint =
     Inr \<lparr>rpcOk = True, rpcStatus = 200,
          rpcJson = Inr \<lparr>dataError = None, resultValue = Some accts\<rparr>\<rparr>"

fun instructionTag :: "instruction \<Rightarrow> byte" where
  "instructionTag (CreateAssociatedTokenAccount payer ata owner mint) = 0"
| "instructionTag (Transfer source destination owner amount) = 3"

definition demoMessageBytes :: "message \<Rightarrow> byte list" where
  "demoMessageBytes m = map instructionTag (fst m)"

definition demoBytes :: "transaction \<Rightarrow> byte list" where
  "demoBytes tx = of_nat (length (signatures tx)) # demoMessageBytes (messageOf tx)"

definition demoSerialize :: "bool \<Rightarrow> transaction \<Rightarrow> thrown + byte list" where
  "demoSerialize requireAllSignatures tx =
     (if recentBlockhash tx = None then Inl (Error ''Transaction recentBlockhash required'')
      else if feePayer tx = None then Inl (Error ''Transaction fee payer required'')
      else Inr (demoBytes tx))"

definition demoSignatureHex :: "byte \<Rightarrow> string" where
  "demoSignatureHex b = encodeHex (replicate 64 b)"

definition signed :: "string \<Rightarrow> signResponse" where
  "signed s = \<lparr>responseOk = True,
     responseJson = Inr \<lparr>jsonStatus = Some ''SUCCESS'', jsonSignature = Some s, jsonMessage = None\<rparr>\<rparr>"

definition demoWorld :: world where
  "demoWorld =
     \<lparr>newPublicKey = (\<lambda>s. Inr s),
      getAssociatedTokenAddress = (\<lambda>mint owner. Inr (''ata-'' @ owner)),
      serialize = demoSerialize,
      serializeMessage = (\<lambda>m. Inr (demoMessageBytes m)),
      getAccountInfo = (\<lambda>a. Inr True),
      getLatestBlockhash = Inr ''blockhash-1'',
      sendRawTransaction = (\<lambda>raw. Inr ''tx-1''),
      confirmTransaction = (\<lambda>s. Inr None),
      fetchSign = (\<lambda>b. Inr (signed (demoSignatureHex 2))),
      signTransaction = (\<lambda>tx amount. Inr (Some (demoSignatureHex 1)))\<rparr>"

definition refused :: signResponse where
  "refused = \<lparr>responseOk = True,
     responseJson = Inr \<lparr>jsonStatus = Some ''FAILED'', jsonSignature = None,
       jsonMessage = Some ''quota exceeded''\<rparr>\<rparr>"

section \<open>Properties of the byte codec\<close>

lemma hexDigit_props:
  assumes "n < 16"
  shows "isHexDigit (hexDigit n)" "hexDigitValue (hexDigit n) = n"
    "\<not> isStrWhiteSpaceChar (hexDigit n)" "hexDigit n \<noteq> CHR ''-''" "hexDigit n \<noteq> CHR ''+''"
    "hexDigit n \<noteq> CHR ''x''" "hexDigit n \<noteq> CHR ''X''"
proof -
  from assms have "n \<in> {0,1,2,3,4,5,6,7,8,9,10,11,12,13,14,15}" by (simp; arith)
  then show "isHexDigit (hexDigit n)" "hexDigitValue (hexDigit n) = n"
    "\<not> isStrWhiteSpaceChar (hexDigit n)" "hexDigit n \<noteq> CHR ''-''" "hexDigit n \<noteq> CHR ''+''"
    "hexDigit n \<noteq> CHR ''x''" "hexDigit n \<noteq> CHR ''X''"
    by (auto simp: hexDigit_def isHexDigit_def hexDigitValue_def isStrWhiteSpaceChar_def)
qed

lemma parseInt16_pair:
  assumes "a < 16" "b < 16"
  shows "parseInt16 [hexDigit a, hexDigit b] = Some (int (16 * a + b))"
  using hexDigit_props[OF assms(1)] hexDigit_props[OF assms(2)]
  by (simp add: parseInt16_def hexValue_def Let_def)

lemma byteToHex_pair: "byteToHex b = [hexDigit (unat b div 16), hexDigit (unat b mod 16)]"
proof -
  have lt: "unat b < 256" using unsigned_less[of b] by simp
  show ?thesis
  proof (cases "unat b < 16")
    case True
    then show ?thesis by (simp add: byteToHex_def padStart2_def toString16.simps[of "unat b"] hexDigit_def)
  next
    case False
    moreover from lt have "unat b div 16 < 16" by simp
    ultimately show ?thesis
      by (simp add: byteToHex_def padStart2_def toString16.simps[of "unat b"] toString16.simps[of "unat b div 16"])
  qed
qed


lemma length_decodePairs: "length (decodePairs s) = length s div 2"
  by (induction s rule: decodePairs.induct) auto

lemma hexLoop_done: "length s \<le> i \<Longrightarrow> hexLoop s i bytes = bytes"
  by (simp add: hexLoop.simps[of s i bytes])

lemma decodePairs_drop:
  "i + 2 \<le> length s \<Longrightarrow>
   decodePairs (drop i s) = toUint8 (parseInt16 (substring s i (i + 2))) # decodePairs (drop (i + 2) s)"
proof -
  assume h: "i + 2 \<le> length s"
  then obtain a b rest where d: "drop i s = a # b # rest"
    by (metis Cons_nth_drop_Suc add_2_eq_Suc' drop_Suc less_eq_Suc_le not_less_eq_eq tl_drop le_SucI Suc_le_lessD)
  have "drop (i + 2) s = drop 2 (drop i s)" by (simp add: add.commute)
  with d show ?thesis by (simp add: substring_def)
qed

lemma hexLoop_decodePairs:
  "i = 2 * k \<Longrightarrow> k \<le> length s div 2 \<Longrightarrow> length bytes = length s div 2 \<Longrightarrow>
   hexLoop s i bytes = take k bytes @ decodePairs (drop i s)"
proof (induction s i bytes arbitrary: k rule: hexLoop.induct)
  case (1 s i bytes)
  show ?case
  proof (cases "i + 2 \<le> length s")
    case True
    with 1(2,4) have klt: "k < length bytes" by simp
    let ?v = "toUint8 (parseInt16 (substring s i (i + 2)))"
    from True have "i < length s" by simp
    then have "hexLoop s i bytes = hexLoop s (i + 2) (typedArraySet bytes (i div 2) ?v)"
      by (simp add: hexLoop.simps[of s i bytes])
    also have "\<dots> = take (Suc k) (typedArraySet bytes (i div 2) ?v) @ decodePairs (drop (i + 2) s)"
    proof (rule 1(1))
      show "i < length s" by fact
      show "i + 2 = 2 * Suc k" using 1(2) by simp
      show "Suc k \<le> length s div 2" using klt 1(4) by simp
      show "length (typedArraySet bytes (i div 2) ?v) = length s div 2"
        using 1(4) by (simp add: typedArraySet_def)
    qed
    also have "take (Suc k) (typedArraySet bytes (i div 2) ?v) = take k bytes @ [?v]"
      using klt 1(2) by (simp add: typedArraySet_def take_Suc_conv_app_nth)
    finally show ?thesis using decodePairs_drop[OF True] by simp
  next
    case False
    have dp: "decodePairs (drop i s) = []"
    proof -
      from False have "length (drop i s) < 2" by simp
      then have "length (decodePairs (drop i s)) = 0" by (simp add: length_decodePairs)
      then show ?thesis by simp
    qed
    from False 1(2,3,4) have kn: "k = length bytes" by simp
    show ?thesis
    proof (cases "i < length s")
      case True
      then have "hexLoop s i bytes = hexLoop s (i + 2) (typedArraySet bytes (i div 2) (toUint8 (parseInt16 (substring s i (i + 2)))))"
        by (simp add: hexLoop.simps[of s i bytes])
      also have "\<dots> = bytes" using False kn 1(2) by (simp add: hexLoop_done typedArraySet_def)
      finally show ?thesis using dp kn by simp
    next
      case False
      then show ?thesis using dp kn by (simp add: hexLoop_done)
    qed
  qed
qed

lemma hexToUint8Array_decodePairs: "hexToUint8Array hex = decodePairs (stripHexPrefix hex)"
  using hexLoop_decodePairs[of 0 0 "stripHexPrefix hex" "replicate (length (stripHexPrefix hex) div 2) 0"]
  by (simp add: hexToUint8Array_def Let_def)

lemma decodePairs_encode: "decodePairs (concat (map byteToHex bytes)) = bytes"
proof (induction bytes)
  case Nil
  show ?case by simp
next
  case (Cons b bytes)
  have lt: "unat b < 256" using unsigned_less[of b] by simp
  then have "unat b div 16 < 16" "unat b mod 16 < 16" by simp_all
  then have "parseInt16 (byteToHex b) = Some (int (16 * (unat b div 16) + unat b mod 16))"
    by (simp only: byteToHex_pair parseInt16_pair)
  then show ?case using Cons by (simp add: byteToHex_pair[of b] toUint8_def)
qed

lemma decodePairs_map:
  "decodePairs s = map (\<lambda>k. toUint8 (parseInt16 (substring s (2 * k) (2 * k + 2)))) [0..<length s div 2]"
proof (induction s rule: decodePairs.induct)
  case (1 a b rest)
  have "[0..<Suc (length rest div 2)] = 0 # map Suc [0..<length rest div 2]"
    by (simp add: upt_conv_Cons map_Suc_upt del: upt_Suc)
  then show ?case using 1 by (simp add: substring_def comp_def del: upt_Suc)
qed simp_all

lemma hexToUint8Array_encodeHex: "hexToUint8Array (encodeHex b) = b"
  by (simp add: hexToUint8Array_decodePairs encodeHex_def stripHexPrefix_def decodePairs_encode)

subsection \<open>Claims about the byte codec\<close>

text \<open>
  Claim C3. For every byte sequence \<open>b\<close>, decoding the hex encoding of \<open>b\<close> gives \<open>b\<close>
  back: \<open>hexToUint8Array\<close> applied to the lowercase, \<open>0x\<close>-prefixed, two-digits-per-byte
  string that the sponsor-signing step builds returns the bytes that were encoded.
\<close>

theorem decode_encode_roundtrip: "hexToUint8Array (encodeHex b) = b"
  by (rule hexToUint8Array_encodeHex)

text \<open>
  Claim C4 says that \<open>hexToUint8Array\<close> fails with \<open>MalformedEncoding\<close> on an input of
  odd length or with a character that is no hexadecimal digit. The function has no
  failing branch. On \<open>0xzz\<close> it returns the one-byte buffer \<open>[0]\<close> (\<open>parseInt\<close> reads no
  digit, and \<open>NaN\<close> is stored as 0); on the three characters \<open>abc\<close> it returns \<open>[0xab]\<close>
  (the last character is dropped).
\<close>

theorem hexToUint8Array_malformed_returns:
  "hexToUint8Array ''0xzz'' = [0] \<and> hexToUint8Array ''abc'' = [0xab]"
  by code_simp

text \<open>
  Claim C4, amended. \<open>hexToUint8Array\<close> returns a buffer for every input string: with
  \<open>n\<close> the number of characters left after an optional leading \<open>0x\<close> is removed, the
  buffer has \<open>n div 2\<close> bytes, and byte \<open>k\<close> is what \<open>parseInt\<close> reads from characters
  \<open>2k\<close> and \<open>2k + 1\<close>, stored as an unsigned 8-bit value (0 when no digit is read).
\<close>

theorem hexToUint8Array_total:
  "hexToUint8Array hex =
     map (\<lambda>k. toUint8 (parseInt16 (substring (stripHexPrefix hex) (2 * k) (2 * k + 2))))
       [0..<length (stripHexPrefix hex) div 2]"
  by (simp only: hexToUint8Array_decodePairs decodePairs_map)

section \<open>Properties of number formatting\<close>

lemma decimalDigit_props:
  assumes "0 \<le> n" "n < 10"
  shows "isDecimalDigit (decimalDigit n)" "decimalDigitValue (decimalDigit n) = n"
proof -
  obtain m where m: "n = int m" "m < 10" using assms by (metis nat_less_iff zless_nat_eq_int_zless nonneg_int_cases of_nat_less_iff of_nat_numeral)
  then have "m \<in> {0,1,2,3,4,5,6,7,8,9}" by (simp; arith)
  then show "isDecimalDigit (decimalDigit n)" "decimalDigitValue (decimalDigit n) = n"
    unfolding m(1) by (auto simp: decimalDigit_def isDecimalDigit_def decimalDigitValue_def)
qed

lemma digit_not_special:
  assumes "isDecimalDigit c"
  shows "\<not> isStrWhiteSpaceChar c" "c \<noteq> CHR ''-''" "c \<noteq> CHR ''+''" "c \<noteq> CHR ''.''"
  using assms by (auto simp: isDecimalDigit_def isStrWhiteSpaceChar_def Let_def)

lemma digitsValue_snoc: "digitsValue (ds @ [c]) = 10 * digitsValue ds + decimalDigitValue c"
  by (simp add: digitsValue_def)

lemma digitsValue_append:
  "digitsValue (a @ b) = digitsValue a * 10 ^ length b + digitsValue b"
proof (induction b rule: rev_induct)
  case Nil
  show ?case by (simp add: digitsValue_def)
next
  case (snoc c b)
  have "digitsValue (a @ b @ [c]) = 10 * digitsValue (a @ b) + decimalDigitValue c"
    using digitsValue_snoc[of "a @ b" c] by simp
  then show ?case using snoc by (simp add: digitsValue_snoc algebra_simps)
qed

lemma digitsValue_zeros: "digitsValue (replicate k CHR ''0'') = 0"
proof (induction k)
  case 0
  show ?case by (simp add: digitsValue_def)
next
  case (Suc k)
  have "replicate (Suc k) CHR ''0'' = replicate k CHR ''0'' @ [CHR ''0'']"
    by (simp add: replicate_append_same)
  then show ?case using Suc by (simp only: digitsValue_snoc) (simp add: decimalDigitValue_def)
qed

lemma natToString_props:
  "0 \<le> n \<Longrightarrow> natToString n \<noteq> [] \<and> list_all isDecimalDigit (natToString n) \<and> digitsValue (natToString n) = n"
proof (induction n rule: natToString.induct)
  case (1 n)
  show ?case
  proof (cases "n < 10")
    case True
    with 1(2) show ?thesis
      by (simp add: natToString.simps[of n] decimalDigit_props digitsValue_def)
  next
    case False
    then have ih: "natToString (n div 10) \<noteq> [] \<and> list_all isDecimalDigit (natToString (n div 10)) \<and> digitsValue (natToString (n div 10)) = n div 10"
      using 1 by simp
    have d: "0 \<le> n mod 10" "n mod 10 < 10" by simp_all
    show ?thesis using False ih decimalDigit_props[OF d]
      by (simp add: natToString.simps[of n] digitsValue_snoc)
  qed
qed


lemma decimalPrefixValue_digits:
  assumes "ip \<noteq> []" "list_all isDecimalDigit ip" "list_all isDecimalDigit fp"
  shows "decimalPrefixValue (ip @ ''.'' @ fp) = Some (of_int (digitsValue ip) + of_int (digitsValue fp) / 10 ^ length fp)"
    and "decimalPrefixValue (''-'' @ ip @ ''.'' @ fp) = Some (- (of_int (digitsValue ip) + of_int (digitsValue fp) / 10 ^ length fp))"
proof -
  obtain c cs where ip: "ip = c # cs" using assms(1) by (cases ip) auto
  have c: "isDecimalDigit c" using assms(2) ip by simp
  have all: "\<And>x. x \<in> set ip \<Longrightarrow> isDecimalDigit x" using assms(2) by (simp add: list_all_iff)
  have tw: "takeWhile isDecimalDigit (ip @ CHR ''.'' # fp) = ip"
    using all by (simp add: takeWhile_append2 isDecimalDigit_def)
  have dw: "dropWhile isDecimalDigit (ip @ CHR ''.'' # fp) = CHR ''.'' # fp"
    using all by (simp add: dropWhile_append2 isDecimalDigit_def)
  have fw: "takeWhile isDecimalDigit fp = fp"
    using assms(3) by (simp add: takeWhile_eq_all_conv list_all_iff)
  have ws1: "dropWhile isStrWhiteSpaceChar (ip @ CHR ''.'' # fp) = ip @ CHR ''.'' # fp"
    using digit_not_special(1)[OF c] by (simp add: ip)
  have nm: "\<not> isStrWhiteSpaceChar CHR ''-''" by (simp add: isStrWhiteSpaceChar_def)
  have hd1: "hd (ip @ CHR ''.'' # fp) = c" by (simp add: ip)
  have ne: "ip @ CHR ''.'' # fp \<noteq> []" by simp
  show "decimalPrefixValue (ip @ ''.'' @ fp) = Some (of_int (digitsValue ip) + of_int (digitsValue fp) / 10 ^ length fp)"
    using digit_not_special[OF c] assms(1)
    by (simp add: decimalPrefixValue_def ws1 hd1 tw dw fw Let_def)
  have "decimalPrefixValue (CHR ''-'' # ip @ CHR ''.'' # fp) = Some (- (of_int (digitsValue ip) + of_int (digitsValue fp) / 10 ^ length fp))"
    unfolding decimalPrefixValue_def dropWhile.simps using nm assms(1)
    by (simp add: tw dw fw Let_def)
  then show "decimalPrefixValue (''-'' @ ip @ ''.'' @ fp) = Some (- (of_int (digitsValue ip) + of_int (digitsValue fp) / 10 ^ length fp))"
    by simp
qed

lemma toFixed2_shape:
  fixes x :: rat
  defines "n \<equiv> \<lfloor>\<bar>x\<bar> * 100 + 1 / 2\<rfloor>"
  shows "\<exists>ip fp. toFixed2 x = (if x < 0 then ''-'' else []) @ ip @ ''.'' @ fp
           \<and> ip \<noteq> [] \<and> list_all isDecimalDigit ip \<and> list_all isDecimalDigit fp \<and> length fp = 2
           \<and> digitsValue ip * 100 + digitsValue fp = n"
proof -
  have n0: "0 \<le> n" unfolding n_def by (simp add: floor_le_iff) 
  define m where "m = natToString n"
  define m' where "m' = replicate (3 - length m) CHR ''0'' @ m"
  define k where "k = length m'"
  have mp: "m \<noteq> []" "list_all isDecimalDigit m" "digitsValue m = n"
    using natToString_props[OF n0] by (simp_all add: m_def)
  have k3: "3 \<le> k" by (simp add: k_def m'_def)
  have zd: "isDecimalDigit CHR ''0''" by (simp add: isDecimalDigit_def)
  have m'd: "list_all isDecimalDigit m'" using mp(2) zd by (auto simp: m'_def list_all_iff)
  have m'v: "digitsValue m' = n"
    using digitsValue_append[of "replicate (3 - length m) CHR ''0''" m] mp(3)
    by (simp add: m'_def digitsValue_zeros)
  let ?ip = "take (k - 2) m'" and ?fp = "drop (k - 2) m'"
  have "toFixed2 x = (if x < 0 then ''-'' else []) @ ?ip @ ''.'' @ ?fp"
    by (simp add: toFixed2_def Let_def n_def m_def m'_def k_def)
  moreover have "?ip \<noteq> []" using k3 by (auto simp: k_def)
  moreover have "list_all isDecimalDigit ?ip" "list_all isDecimalDigit ?fp"
    using m'd by (auto simp: list_all_iff dest: in_set_takeD in_set_dropD)
  moreover have l2: "length ?fp = 2" using k3 by (simp add: k_def)
  moreover have "digitsValue ?ip * 100 + digitsValue ?fp = n"
    using digitsValue_append[of ?ip ?fp] m'v l2 by simp
  ultimately show ?thesis by blast
qed

lemma toFixed2_value:
  "decimalPrefixValue (toFixed2 x) =
     Some ((if x < 0 then - 1 else 1) * (of_int \<lfloor>\<bar>x\<bar> * 100 + 1 / 2\<rfloor> / 100))"
proof -
  obtain ip fp where h: "toFixed2 x = (if x < 0 then ''-'' else []) @ ip @ ''.'' @ fp"
      "ip \<noteq> []" "list_all isDecimalDigit ip" "list_all isDecimalDigit fp" "length fp = 2"
      "digitsValue ip * 100 + digitsValue fp = \<lfloor>\<bar>x\<bar> * 100 + 1 / 2\<rfloor>"
    using toFixed2_shape[of x] by blast
  have v: "(of_int (digitsValue ip) + of_int (digitsValue fp) / 10 ^ length fp :: rat)
            = of_int \<lfloor>\<bar>x\<bar> * 100 + 1 / 2\<rfloor> / 100"
  proof -
    have "(of_int \<lfloor>\<bar>x\<bar> * 100 + 1 / 2\<rfloor> :: rat) = of_int (digitsValue ip) * 100 + of_int (digitsValue fp)"
      using h(6)[symmetric] by simp
    then show ?thesis using h(5) by (simp add: field_simps)
  qed
  show ?thesis
  proof (cases "x < 0")
    case True
    then show ?thesis using decimalPrefixValue_digits(2)[OF h(2,3,4)] h(1) v by simp
  next
    case False
    then show ?thesis using decimalPrefixValue_digits(1)[OF h(2,3,4)] h(1) v by simp
  qed
qed

lemma nearest_hundredth:
  fixes a :: rat
  shows "\<bar>of_int \<lfloor>a * 100 + 1 / 2\<rfloor> / 100 - a\<bar> \<le> 1 / 200"
proof -
  define y where "y = a * 100"
  have "of_int \<lfloor>y + 1 / 2\<rfloor> \<le> y + 1 / 2" "y + 1 / 2 < of_int \<lfloor>y + 1 / 2\<rfloor> + 1"
    by linarith+
  then have "\<bar>of_int \<lfloor>y + 1 / 2\<rfloor> - y\<bar> \<le> 1 / 2" by linarith
  then have "\<bar>(of_int \<lfloor>y + 1 / 2\<rfloor> - y) / 100\<bar> \<le> (1 / 2) / 100"
    by (simp only: abs_divide) (simp add: divide_le_cancel)
  then show ?thesis by (simp add: y_def diff_divide_distrib)
qed

lemma pow2_pos: "0 < pow2 e"
  by (simp add: pow2_def)

lemma roundHalfEven_nonneg: "0 \<le> x \<Longrightarrow> 0 \<le> roundHalfEven x"
  by (simp add: roundHalfEven_def Let_def)

lemma roundDouble_nonneg: "0 \<le> x \<Longrightarrow> 0 \<le> roundDouble x"
proof (cases "x = 0")
  case True
  then show ?thesis by (simp add: roundDouble_def)
next
  case False
  assume "0 \<le> x"
  with False have pos: "0 < x" by simp
  let ?e = "doubleExponent \<bar>x\<bar>"
  have "0 \<le> \<bar>x\<bar> / pow2 ?e" using pow2_pos[of ?e] by simp
  then have "0 \<le> roundHalfEven (\<bar>x\<bar> / pow2 ?e)" by (rule roundHalfEven_nonneg)
  then have "0 \<le> (of_int (roundHalfEven (\<bar>x\<bar> / pow2 ?e)) :: rat) * pow2 ?e"
    using pow2_pos[of ?e] by simp
  then show ?thesis using pos by (simp add: roundDouble_def Let_def)
qed

lemma foldl_jsAdd_nonneg:
  "0 \<le> acc \<Longrightarrow> list_all (\<lambda>u. 0 \<le> orZero u) accts \<Longrightarrow>
   0 \<le> foldl (\<lambda>totalBalance u. jsAdd totalBalance (orZero u)) acc accts"
proof (induction accts arbitrary: acc)
  case Nil
  then show ?case by simp
next
  case (Cons u accts)
  from Cons.prems have "0 \<le> jsAdd acc (orZero u)"
    by (simp add: jsAdd_def roundDouble_nonneg)
  with Cons show ?case by simp
qed

lemma sumBalances_nonneg: "list_all (\<lambda>u. 0 \<le> orZero u) accts \<Longrightarrow> 0 \<le> sumBalances accts"
  by (simp add: sumBalances_def foldl_jsAdd_nonneg)

lemma toFixed2_nearest:
  assumes "0 \<le> x"
  shows "\<exists>v. decimalPrefixValue (toFixed2 x) = Some v \<and> \<bar>v - x\<bar> \<le> 1 / 200
           \<and> (\<exists>n::int. v = of_int n / 100)"
proof -
  let ?v = "(of_int \<lfloor>x * 100 + 1 / 2\<rfloor> / 100 :: rat)"
  have "decimalPrefixValue (toFixed2 x) = Some ?v"
    using toFixed2_value[of x] assms by simp
  moreover have "\<bar>?v - x\<bar> \<le> 1 / 200" by (rule nearest_hundredth)
  ultimately show ?thesis by blast
qed

lemma lookupBalance_success:
  assumes "requireRpc env = Inr url" "requireMint env = Inr mint"
    and "rpc url (trim address) mint = Inr response" "rpcOk response"
    and "rpcJson response = Inr d" "dataError d = None"
  shows "lookupBalance env rpc address = Inr (toFixed2 (totalBalance d))"
  using assms by (simp add: lookupBalance_def)

section \<open>Properties of the double rounding\<close>

text \<open>
  The rounding error is at most half a unit in the last place, and for a number of
  normal size the unit is placed so that the significand has 53 bits.
\<close>

lemma pow2_powi: "pow2 e = 2 powi e"
  by (simp add: pow2_def power_int_def inverse_eq_divide power_one_over)

lemma pow2_add: "pow2 (a + b) = pow2 a * pow2 b"
  by (simp add: pow2_powi power_int_add)

lemma pow2_mono: "a \<le> b \<Longrightarrow> pow2 a \<le> pow2 b"
  by (simp add: pow2_powi power_int_increasing)

lemma pow2_less_imp_less: "pow2 a < pow2 b \<Longrightarrow> a < b"
  using pow2_mono[of b a] by (cases "a < b") simp_all

lemma pow2_nat: "pow2 (int n) = 2 ^ n"
  by (simp add: pow2_def)

lemma bitLength_bounds: "0 < n \<Longrightarrow> 2 ^ (bitLength n - 1) \<le> n \<and> n < 2 ^ bitLength n"
proof (induction n rule: bitLength.induct)
  case (1 n)
  show ?case
  proof (cases "n div 2 = 0")
    case True
    with 1(2) have "n = 1" by simp
    then show ?thesis by (simp add: bitLength.simps[of 1] bitLength.simps[of 0])
  next
    case False
    with 1(2) have pos: "0 < n div 2" by simp
    with 1 have ih: "2 ^ (bitLength (n div 2) - 1) \<le> n div 2" "n div 2 < 2 ^ bitLength (n div 2)"
      by simp_all
    have bl: "bitLength n = Suc (bitLength (n div 2))"
      using 1(2) by (simp add: bitLength.simps[of n])
    have blpos: "0 < bitLength (n div 2)"
      using pos by (simp add: bitLength.simps[of "n div 2"])
    then obtain m where m: "bitLength (n div 2) = Suc m" by (cases "bitLength (n div 2)") auto
    from ih(1) m have "2 * 2 ^ m \<le> 2 * (n div 2)" by simp
    also have "\<dots> \<le> n" by simp
    finally have lo: "(2::int) ^ (bitLength n - 1) \<le> n" by (simp add: bl m)
    from ih(2) have "n div 2 + 1 \<le> 2 ^ bitLength (n div 2)" by simp
    then have "2 * (n div 2) + 2 \<le> 2 * 2 ^ bitLength (n div 2)" by simp
    moreover have "n < 2 * (n div 2) + 2" by presburger
    ultimately have hi: "n < 2 ^ bitLength n" by (simp add: bl)
    from lo hi show ?thesis ..
  qed
qed

lemma bitLength_bounds_rat:
  assumes "0 < n"
  shows "(2::rat) powi (int (bitLength n) - 1) \<le> of_int n" "(of_int n :: rat) < 2 powi int (bitLength n)"
proof -
  from bitLength_bounds[OF assms] have b: "2 ^ (bitLength n - 1) \<le> n" "n < 2 ^ bitLength n" by simp_all
  have pos: "0 < bitLength n" using assms by (simp add: bitLength.simps[of n])
  then have e: "int (bitLength n) - 1 = int (bitLength n - 1)" by simp
  have "(of_int (2 ^ (bitLength n - 1)) :: rat) \<le> of_int n" using b(1) by (simp only: of_int_le_iff)
  then show "(2::rat) powi (int (bitLength n) - 1) \<le> of_int n" unfolding e by simp
  have "(of_int n :: rat) < of_int (2 ^ bitLength n)" using b(2) by (simp only: of_int_less_iff)
  then show "(of_int n :: rat) < 2 powi int (bitLength n)" by simp
qed

lemma doubleExponent_normal:
  assumes "pow2 (- 1022) \<le> x"
  shows "2 ^ 52 \<le> x / pow2 (doubleExponent x) \<and> x / pow2 (doubleExponent x) < 2 ^ 53"
proof -
  have xpos: "0 < x" using assms pow2_pos[of "- 1022"] by simp
  obtain p q where pq: "quotient_of x = (p, q)" by (cases "quotient_of x")
  then have q: "0 < q" and x: "x = of_int p / of_int q"
    using quotient_of_denom_pos[OF pq] quotient_of_div[OF pq] by simp_all
  have p: "0 < p" using xpos q x by (simp add: zero_less_divide_iff)
  define lp where "lp = int (bitLength p)"
  define lq where "lq = int (bitLength q)"
  define e0 where "e0 = lp - lq - 53"
  have bp: "(2::rat) powi (lp - 1) \<le> of_int p" "(of_int p :: rat) < 2 powi lp"
    using bitLength_bounds_rat[OF p] by (simp_all add: lp_def)
  have bq: "(2::rat) powi (lq - 1) \<le> of_int q" "(of_int q :: rat) < 2 powi lq"
    using bitLength_bounds_rat[OF q] by (simp_all add: lq_def)
  have qr: "(0::rat) < of_int q" using q by simp
  have lo: "2 powi (lp - lq - 1) < x"
  proof -
    have "(2::rat) powi (lp - lq - 1) * of_int q < 2 powi (lp - lq - 1) * 2 powi lq"
      using bq(2) by (intro mult_strict_left_mono) simp_all
    also have "\<dots> = 2 powi (lp - 1)" by (simp add: power_int_add[symmetric])
    also have "\<dots> \<le> of_int p" by (rule bp(1))
    finally show ?thesis using qr by (simp add: x pos_less_divide_eq)
  qed
  have hi: "x < 2 powi (lp - lq + 1)"
  proof -
    have "(of_int p :: rat) < 2 powi lp" by (rule bp(2))
    also have "\<dots> = 2 powi (lp - lq + 1) * 2 powi (lq - 1)" by (simp add: power_int_add[symmetric])
    also have "\<dots> \<le> 2 powi (lp - lq + 1) * of_int q"
      using bq(1) by (intro mult_left_mono) simp_all
    finally show ?thesis using qr by (simp add: x pos_divide_less_eq)
  qed
  have div: "\<And>e. x / pow2 e = x * 2 powi (- e)"
    by (simp add: pow2_powi power_int_minus divide_inverse)
  have lo0: "2 ^ 52 < x / pow2 e0"
  proof -
    have "(2::rat) powi 52 = 2 powi (lp - lq - 1) * 2 powi (- e0)"
      by (simp add: power_int_add[symmetric] e0_def)
    also have "\<dots> < x * 2 powi (- e0)" using lo by (intro mult_strict_right_mono) simp_all
    finally show ?thesis by (simp add: div)
  qed
  have hi0: "x / pow2 e0 < 2 ^ 54"
  proof -
    have "x * 2 powi (- e0) < 2 powi (lp - lq + 1) * 2 powi (- e0)"
      using hi by (intro mult_strict_right_mono) simp_all
    also have "\<dots> = 2 powi 54" by (simp add: power_int_add[symmetric] e0_def)
    finally show ?thesis by (simp add: div)
  qed
  define e where "e = (if x / pow2 e0 < 2 ^ 53 then e0 else e0 + 1)"
  have half: "x / pow2 (e0 + 1) = x / pow2 e0 / 2"
    by (simp add: pow2_powi power_int_add)
  have norm: "2 ^ 52 \<le> x / pow2 e \<and> x / pow2 e < 2 ^ 53"
    using lo0 hi0 half by (auto simp: e_def)
  have clip: "- 1074 \<le> e"
  proof -
    have "x < 2 ^ 53 * pow2 e"
      using norm pow2_pos[of e] by (simp add: pos_divide_less_eq)
    also have "\<dots> = pow2 (53 + e)"
      using pow2_nat[of 53] by (simp only: pow2_add) simp
    finally have "pow2 (- 1022) < pow2 (53 + e)" using assms by simp
    then have "- 1022 < 53 + e" by (rule pow2_less_imp_less)
    then show ?thesis by simp
  qed
  have "doubleExponent x = max e (- 1074)"
    by (simp add: doubleExponent_def pq Let_def e_def e0_def lp_def lq_def)
  with clip have "doubleExponent x = e" by simp
  with norm show ?thesis by simp
qed

lemma roundHalfEven_error: "\<bar>of_int (roundHalfEven y) - y\<bar> \<le> 1 / 2"
proof -
  have "of_int \<lfloor>y\<rfloor> \<le> y" "y < of_int \<lfloor>y\<rfloor> + 1" by linarith+
  then show ?thesis by (auto simp: roundHalfEven_def Let_def)
qed

lemma roundDouble_error: "\<bar>roundDouble x - x\<bar> \<le> pow2 (doubleExponent \<bar>x\<bar>) / 2"
proof (cases "x = 0")
  case True
  then show ?thesis using pow2_pos[of "doubleExponent 0"] by (simp add: roundDouble_def)
next
  case False
  let ?P = "pow2 (doubleExponent \<bar>x\<bar>)"
  let ?y = "\<bar>x\<bar> / ?P"
  have P: "0 < ?P" by (rule pow2_pos)
  have "roundDouble x - x = sgn x * ((of_int (roundHalfEven ?y) - ?y) * ?P)"
  proof -
    have "x = sgn x * (?y * ?P)" using P by (simp add: sgn_mult_abs)
    then have "roundDouble x - x = sgn x * of_int (roundHalfEven ?y) * ?P - sgn x * (?y * ?P)"
      using False by (simp add: roundDouble_def Let_def)
    then show ?thesis by (simp add: algebra_simps)
  qed
  then have "\<bar>roundDouble x - x\<bar> = \<bar>of_int (roundHalfEven ?y) - ?y\<bar> * ?P"
    using False P by (simp add: abs_mult abs_sgn_eq)
  also have "\<dots> \<le> (1 / 2) * ?P"
    using roundHalfEven_error[of ?y] P by (intro mult_right_mono) simp_all
  finally show ?thesis by simp
qed

lemma roundDouble_examples:
  "roundDouble (1 / 10) = 3602879701896397 / 2 ^ 55
   \<and> jsAdd (roundDouble (1 / 10)) (roundDouble (2 / 10)) = 1351079888211149 / 2 ^ 52
   \<and> roundDouble (1 / 200) = 5764607523034235 / 2 ^ 60
   \<and> roundDouble (2 ^ 53 + 1) = 2 ^ 53
   \<and> roundDouble (2 ^ 53 + 3) = 2 ^ 53 + 4
   \<and> roundDouble (1 / 16) = 1 / 16"
  by code_simp

section \<open>Properties of the transfer flow\<close>

lemma prog_simps [simp]:
  "fst (ret x) = []" "snd (ret x) = Inr x"
  "fst (throw t) = []" "snd (throw t) = Inl t"
  "fst (lib r) = []" "snd (lib r) = r"
  "fst (call e r) = [e]" "snd (call e r) = r"
  by (simp_all add: ret_def throw_def lib_def call_def)

lemma fst_bnd: "fst (bnd m f) = (case snd m of Inl t \<Rightarrow> fst m | Inr x \<Rightarrow> fst m @ fst (f x))"
  by (simp add: bnd_def split: sum.splits prod.splits)

lemma snd_bnd: "snd (bnd m f) = (case snd m of Inl t \<Rightarrow> Inl t | Inr x \<Rightarrow> snd (f x))"
  by (simp add: bnd_def split: sum.splits prod.splits)

lemma resolveAccounts_events: "fst (resolveAccounts w env a b d) = []"
  by (simp add: resolveAccounts_def fst_bnd snd_bnd split: sum.splits)

lemma createRecipientAccount_events:
  "e \<in> set (fst (createRecipientAccount w dev ata owner mint)) \<Longrightarrow>
   \<exists>bytes. e = FetchSign (SetupBody bytes ''master'')"
  by (auto simp: createRecipientAccount_def Let_def fst_bnd snd_bnd split: sum.splits if_splits)

lemma ensureRecipientAccount_events:
  "e \<in> set (fst (ensureRecipientAccount w k)) \<Longrightarrow>
   e = GetAccountInfo (userBATA k) \<or> (\<exists>bytes. e = FetchSign (SetupBody bytes ''master''))"
  by (auto simp: ensureRecipientAccount_def fst_bnd snd_bnd split: sum.splits if_splits
      dest: createRecipientAccount_events)

lemma buildTransfer_events:
  "fst (buildTransfer w ataA ataB userA dev amount) = [GetLatestBlockhash]"
  by (simp add: buildTransfer_def Let_def fst_bnd snd_bnd split: sum.splits)

lemma buildTransfer_result:
  "snd (buildTransfer w ataA ataB userA dev amount) = Inr tx \<Longrightarrow>
   \<exists>blockhash. getLatestBlockhash w = Inr blockhash \<and>
     tx = \<lparr>instructions = [Transfer ataA ataB userA (transferAmount amount)],
           recentBlockhash = Some blockhash, feePayer = Some dev, signatures = []\<rparr>"
  by (auto simp: buildTransfer_def Let_def snd_bnd addInstruction_def newTransaction_def split: sum.splits)

lemma senderSign_events:
  "fst (senderSign w tx userA amount) = [SignTransaction tx amount]"
  by (simp add: senderSign_def fst_bnd snd_bnd split: sum.splits option.splits)

lemma senderSign_result:
  "snd (senderSign w tx userA amount) = Inr (s, tx1) \<Longrightarrow>
   signTransaction w tx amount = Inr (Some s) \<and> messageOf tx1 = messageOf tx"
  by (auto simp: senderSign_def snd_bnd addSignature_def messageOf_def split: sum.splits option.splits if_splits)

lemma sponsorSign_events_Some:
  "e \<in> set (fst (sponsorSign w tx dev)) \<Longrightarrow> \<exists>body'. sponsorBody w tx = Some body' \<and> e = FetchSign body'"
  by (auto simp: sponsorSign_def sponsorBody_def Let_def fst_bnd snd_bnd split: sum.splits option.splits if_splits)

lemma sponsorSign_failure:
  assumes "sponsorBody w tx = Some body'" "fetchSign w body' = Inr resp" "sponsorReportsFailure resp"
  shows "snd (sponsorSign w tx dev) = Inl (Error (sponsorFailureMessage resp))"
  using assms
  by (auto simp: sponsorSign_def sponsorBody_def Let_def snd_bnd sponsorReportsFailure_def
      sponsorFailureMessage_def signatureOf_def split: sum.splits option.splits if_splits)

lemma submit_events:
  "e \<in> set (fst (submit w tx)) \<Longrightarrow>
   (\<exists>raw. e = SendRawTransaction raw \<and> serialize w True tx = Inr raw) \<or> (\<exists>s. e = ConfirmTransaction s)"
  by (auto simp: submit_def fst_bnd snd_bnd split: sum.splits option.splits if_splits)

lemma sponsor_request_path:
  assumes "FetchSign (SponsorBody h r) \<in> set (fst (transferAttempt w env a b d amt))"
  shows "\<exists>k tx s tx1. snd (resolveAccounts w env a b d) = Inr k
      \<and> snd (ensureRecipientAccount w k) = Inr ()
      \<and> snd (buildTransfer w (userAATA k) (userBATA k) (userAPublicKey k) (devPublicKey k) amt) = Inr tx
      \<and> snd (senderSign w tx (userAPublicKey k) amt) = Inr (s, tx1)
      \<and> sponsorBody w tx1 = Some (SponsorBody h r)"
  using assms unfolding transferAttempt_def
  by (auto simp: fst_bnd snd_bnd resolveAccounts_events buildTransfer_events senderSign_events
      split: sum.splits prod.splits
      dest!: ensureRecipientAccount_events sponsorSign_events_Some submit_events)

lemma sponsor_failure_attempt:
  assumes "FetchSign (SponsorBody h r) \<in> set (fst (transferAttempt w env a b d amt))"
    and "fetchSign w (SponsorBody h r) = Inr resp"
    and "sponsorReportsFailure resp"
  shows "snd (transferAttempt w env a b d amt) = Inl (Error (sponsorFailureMessage resp))
       \<and> (\<forall>raw. SendRawTransaction raw \<notin> set (fst (transferAttempt w env a b d amt)))"
proof -
  from sponsor_request_path[OF assms(1)] obtain k tx s tx1 where
    p: "snd (resolveAccounts w env a b d) = Inr k"
      "snd (ensureRecipientAccount w k) = Inr ()"
      "snd (buildTransfer w (userAATA k) (userBATA k) (userAPublicKey k) (devPublicKey k) amt) = Inr tx"
      "snd (senderSign w tx (userAPublicKey k) amt) = Inr (s, tx1)"
      "sponsorBody w tx1 = Some (SponsorBody h r)"
    by blast
  have f: "snd (sponsorSign w tx1 (devPublicKey k)) = Inl (Error (sponsorFailureMessage resp))"
    by (rule sponsorSign_failure[OF p(5) assms(2,3)])
  show ?thesis
    unfolding transferAttempt_def using p f
    by (auto simp: fst_bnd snd_bnd resolveAccounts_events buildTransfer_events senderSign_events
        dest!: ensureRecipientAccount_events sponsorSign_events_Some)
qed

lemma transferUSDC_events: "events (transferUSDC w env a b d amt) = fst (transferAttempt w env a b d amt)"
  by (simp add: transferUSDC_def Let_def split: sum.splits)

lemma transferUSDC_result: "result (transferUSDC w env a b d amt) = snd (transferAttempt w env a b d amt)"
  by (simp add: transferUSDC_def Let_def split: sum.splits)

lemma transferUSDC_states:
  "states (transferUSDC w env a b d amt) =
     [\<lparr>isTransferring = True, error = None, success = False\<rparr>,
      (case snd (transferAttempt w env a b d amt) of
         Inr r \<Rightarrow> \<lparr>isTransferring = False, error = None, success = True\<rparr>
       | Inl t \<Rightarrow> \<lparr>isTransferring = False, error = Some (errorMessage t), success = False\<rparr>)]"
  by (simp add: transferUSDC_def Let_def split: sum.splits)

lemma resolveAccounts_signer [simp]:
  "resolveAccounts (w\<lparr>signTransaction := f\<rparr>) env a b d = resolveAccounts w env a b d"
  by (simp add: resolveAccounts_def)

lemma buildTransfer_signer [simp]:
  "buildTransfer (w\<lparr>signTransaction := f\<rparr>) ataA ataB userA dev amt = buildTransfer w ataA ataB userA dev amt"
  by (simp add: buildTransfer_def)

lemma sponsorBody_signer [simp]:
  "sponsorBody (w\<lparr>signTransaction := f\<rparr>) tx = sponsorBody w tx"
  by (simp add: sponsorBody_def)


lemma existing_account_needs_no_setup:
  "getAccountInfo w (userBATA k) = Inr True \<Longrightarrow>
   ensureRecipientAccount w k = ([GetAccountInfo (userBATA k)], Inr ())"
  by (simp add: ensureRecipientAccount_def bnd_def call_def ret_def)

lemma sponsorSign_result:
  "snd (sponsorSign w tx dev) = Inr (j, tx') \<Longrightarrow> messageOf tx' = messageOf tx"
  by (auto simp: sponsorSign_def Let_def snd_bnd addSignature_def messageOf_def
      split: sum.splits option.splits if_splits)

lemma submitted_transaction_is_transfer:
  assumes "SendRawTransaction raw \<in> set (events (transferUSDC w env a b d amt))"
  shows "\<exists>k tx. snd (resolveAccounts w env a b d) = Inr k
      \<and> serialize w True tx = Inr raw
      \<and> instructions tx = [Transfer (userAATA k) (userBATA k) (userAPublicKey k) (transferAmount amt)]"
proof -
  from assms have "SendRawTransaction raw \<in> set (fst (transferAttempt w env a b d amt))"
    by (simp add: transferUSDC_events)
  then obtain k tx s tx1 j tx2 where
    p: "snd (resolveAccounts w env a b d) = Inr k"
       "snd (buildTransfer w (userAATA k) (userBATA k) (userAPublicKey k) (devPublicKey k) amt) = Inr tx"
       "snd (senderSign w tx (userAPublicKey k) amt) = Inr (s, tx1)"
       "snd (sponsorSign w tx1 (devPublicKey k)) = Inr (j, tx2)"
       "serialize w True tx2 = Inr raw"
    unfolding transferAttempt_def
    by (auto simp: fst_bnd snd_bnd resolveAccounts_events buildTransfer_events senderSign_events
        split: sum.splits prod.splits
        dest!: ensureRecipientAccount_events sponsorSign_events_Some submit_events)
  from buildTransfer_result[OF p(2)] have "instructions tx = [Transfer (userAATA k) (userBATA k) (userAPublicKey k) (transferAmount amt)]"
    by auto
  moreover from senderSign_result[OF p(3)] sponsorSign_result[OF p(4)]
  have "instructions tx2 = instructions tx" by (simp add: messageOf_def)
  ultimately show ?thesis using p(1,5) by auto
qed

section \<open>Properties of the gate\<close>

lemma gate_stops_flagged_transfer:
  "hasConnection \<and> hasSdk \<and> a \<noteq> [] \<and> b \<noteq> [] \<and> d \<noteq> [] \<Longrightarrow>
   handleTransferUSDC hasConnection hasSdk True w env a b d configured =
     ([], [(''User A has insufficient USDC on devnet. Please fund this wallet to continue.'', Failed)])"
  by (simp add: handleTransferUSDC_def)

lemma gate_flags_smaller_balance:
  "hasInsufficientUSDC (Some ''0.00 USDC'') (configuredTransferAmount None) False = True"
  by code_simp

section \<open>Running the flow on the test doubles\<close>

lemma demoSignature_decoded: "hexToUint8Array (demoSignatureHex b) = replicate 64 b"
  by (simp add: demoSignatureHex_def hexToUint8Array_encodeHex)

lemma demoSignature_nonempty: "demoSignatureHex b \<noteq> []"
  by (simp add: demoSignatureHex_def encodeHex_def)

lemma encodeHex_3: "encodeHex [3] = ''0x03''"
  by code_simp

lemmas flow_eval =
  transferAttempt_def resolveAccounts_def ensureRecipientAccount_def
  createRecipientAccount_def buildTransfer_def senderSign_def sponsorSign_def submit_def
  bnd_def lib_def call_def ret_def throw_def
  demoWorld_def demoEnv_def requireMint_def assertEnv_def addSignature_def signed_def
  signatureOf_def messageOf_def demoMessageBytes_def addInstruction_def newTransaction_def
  demoSerialize_def demoBytes_def setupTransaction_def Let_def
  demoSignature_decoded demoSignature_nonempty encodeHex_3

section \<open>Claims about the transfer flow\<close>

text \<open>
  Claim C1 says that, when the recipient's token account is absent, the flow submits a
  sponsor-only setup transaction to the ledger and does not start building the transfer
  before that transaction is confirmed. The flow only posts the setup transaction to the
  signing endpoint and goes on as soon as that HTTP response is \<open>ok\<close>. With a
  serializer that accepts the setup transaction, the one \<open>sendRawTransaction\<close> of the
  attempt carries the transfer, no setup transaction reaches the ledger, and nothing is
  confirmed before \<open>getLatestBlockhash\<close>. With the library's serializer, which wants a
  recent blockhash, the attempt stops right after \<open>getAccountInfo\<close>.
\<close>

theorem setup_transaction_never_submitted:
  "events (transferUSDC
      (demoWorld\<lparr>getAccountInfo := \<lambda>a. Inr False, serialize := \<lambda>r tx. Inr (demoBytes tx)\<rparr>)
      demoEnv ''userA'' ''userB'' ''dev'' amount)
     = [GetAccountInfo ''ata-userB'', FetchSign (SetupBody [0, 0] ''master''),
        GetLatestBlockhash,
        SignTransaction
          \<lparr>instructions = [Transfer ''ata-userA'' ''ata-userB'' ''userA'' (transferAmount amount)],
           recentBlockhash = Some ''blockhash-1'', feePayer = Some ''dev'', signatures = []\<rparr>
          amount,
        FetchSign (SponsorBody ''0x03'' sponsorReason),
        SendRawTransaction [2, 3], ConfirmTransaction ''tx-1'']
   \<and> transferUSDC (demoWorld\<lparr>getAccountInfo := \<lambda>a. Inr False\<rparr>)
        demoEnv ''userA'' ''userB'' ''dev'' amount
     = \<lparr>events = [GetAccountInfo ''ata-userB''],
        states = [\<lparr>isTransferring = True, error = None, success = False\<rparr>,
                  \<lparr>isTransferring = False,
                   error = Some ''Transaction recentBlockhash required'', success = False\<rparr>],
        result = Inl (Error ''Transaction recentBlockhash required'')\<rparr>"
  by (simp add: transferUSDC_events transferUSDC_def flow_eval errorMessage_def)

text \<open>
  Claim C5. When the sponsor's signing call of an attempt reports failure (the HTTP
  response is not \<open>ok\<close>, the status is not \<open>SUCCESS\<close>, or the signature field is
  missing), the attempt throws the error of that failure, its trace has no
  \<open>sendRawTransaction\<close>, and the transfer state ends with that error.
\<close>

theorem sponsor_failure_no_submission:
  assumes "FetchSign (SponsorBody h r) \<in> set (events (transferUSDC w env a b d amt))"
    and "fetchSign w (SponsorBody h r) = Inr resp"
    and "sponsorReportsFailure resp"
  shows "result (transferUSDC w env a b d amt) = Inl (Error (sponsorFailureMessage resp))
       \<and> (\<forall>raw. SendRawTransaction raw \<notin> set (events (transferUSDC w env a b d amt)))
       \<and> last (states (transferUSDC w env a b d amt)) =
           \<lparr>isTransferring = False, error = Some (sponsorFailureMessage resp), success = False\<rparr>"
  using sponsor_failure_attempt[of h r w env a b d amt resp] assms
  by (simp add: transferUSDC_events transferUSDC_result transferUSDC_states errorMessage_def)

theorem sponsor_failure_no_submission_witness:
  "result (transferUSDC (demoWorld\<lparr>fetchSign := \<lambda>b. Inr refused\<rparr>) demoEnv ''userA'' ''userB'' ''dev'' (jsLiteral (1 / 100)))
     = Inl (Error ''quota exceeded'')
   \<and> (\<forall>raw. SendRawTransaction raw \<notin> set (events (transferUSDC (demoWorld\<lparr>fetchSign := \<lambda>b. Inr refused\<rparr>) demoEnv ''userA'' ''userB'' ''dev'' (jsLiteral (1 / 100)))))
   \<and> last (states (transferUSDC (demoWorld\<lparr>fetchSign := \<lambda>b. Inr refused\<rparr>) demoEnv ''userA'' ''userB'' ''dev'' (jsLiteral (1 / 100))))
     = \<lparr>isTransferring = False, error = Some ''quota exceeded'', success = False\<rparr>"
proof -
  let ?w = "demoWorld\<lparr>fetchSign := \<lambda>b. Inr refused\<rparr>"
  have h1: "FetchSign (SponsorBody ''0x03'' sponsorReason)
              \<in> set (events (transferUSDC ?w demoEnv ''userA'' ''userB'' ''dev'' (jsLiteral (1 / 100))))"
    by (simp add: transferUSDC_events flow_eval refused_def)
  have h2: "fetchSign ?w (SponsorBody ''0x03'' sponsorReason) = Inr refused" by simp
  have h3: "sponsorReportsFailure refused" by (simp add: sponsorReportsFailure_def refused_def)
  have m: "sponsorFailureMessage refused = ''quota exceeded''"
    by (simp add: sponsorFailureMessage_def refused_def failureMessage_def)
  from sponsor_failure_no_submission[OF h1 h2 h3] show ?thesis unfolding m .
qed



text \<open>
  Claim C7 says that the setup transaction built for an absent recipient account has
  one instruction, the sponsor as fee payer and the sponsor as only required signer.
  The transaction the flow builds has the one account-creation instruction, paid and
  signed for by the sponsor alone, but its fee payer and its recent blockhash are never
  set (the transfer transaction gets both a few lines below).
\<close>

theorem setup_transaction_fee_payer_unset:
  "instructions (setupTransaction dev ata owner mint) = [CreateAssociatedTokenAccount dev ata owner mint]
   \<and> requiredSigners (setupTransaction dev ata owner mint) = [dev]
   \<and> feePayer (setupTransaction dev ata owner mint) = None
   \<and> recentBlockhash (setupTransaction dev ata owner mint) = None"
  by (simp add: setupTransaction_def addInstruction_def newTransaction_def requiredSigners_def)

text \<open>
  Claim C8 says that the amount in the transfer instruction is the exact number of
  base units of the caller's decimal amount. \<open>Math.floor(amount * 1_000_000)\<close> gives
  10000 for 0.01 and 290000 for 0.29, but 4099999 for 4.1: the double nearest to 4.1
  times one million rounds to 4099999.9999999995.
\<close>

theorem transferAmount_floor_loses_unit:
  "transferAmount (jsLiteral (1 / 100)) = 10000
   \<and> transferAmount (jsLiteral (29 / 100)) = 290000
   \<and> transferAmount (jsLiteral (41 / 10)) = 4099999"
  by code_simp

text \<open>
  Claim C10. When \<open>transferUSDC\<close> settles, by returning or by throwing, the last state
  it set has \<open>isTransferring\<close> false; \<open>success\<close> holds exactly when \<open>error\<close> is null,
  and exactly when the call returned. The state set at the start of the call and the
  state the hook starts with have neither a success nor an error.
\<close>

theorem transfer_state_settled:
  "\<exists>final. states (transferUSDC w env a b d amt)
        = [\<lparr>isTransferring = True, error = None, success = False\<rparr>, final]
     \<and> \<not> isTransferring final
     \<and> success final = (error final = None)
     \<and> success final = (\<exists>r. result (transferUSDC w env a b d amt) = Inr r)
     \<and> \<not> success initialTransferState \<and> error initialTransferState = None"
  by (auto simp: transferUSDC_states transferUSDC_result initialTransferState_def split: sum.splits)

section \<open>Claims about the balance aggregator and the gate\<close>

text \<open>
  Claim C9 says that the aggregator returns the exact sum of the owner's account
  balances. For two accounts holding 0.0625 and 0.5 (both exact as doubles, and so is
  their sum 0.5625) the route answers \<open>0.56\<close>: the sum is printed with
  \<open>toFixed(2)\<close>.
\<close>

theorem balance_is_rounded_sum:
  "usdcBalancePOST demoEnv (ledgerWith [Some (1 / 16), Some (1 / 2)]) (Inr (Some demoOwner))
     = Success200 ''0.56''
   \<and> decimalPrefixValue ''0.56'' \<noteq> Some (1 / 16 + 1 / 2)"
  by code_simp

text \<open>
  Claim C9, amended. For a well-formed owner address and a successful reply of the
  ledger listing the owner's accounts with non-negative balances, the aggregator answers
  with status SUCCESS and the sum of the \<open>uiAmount\<close> values (\<open>null\<close> counted as 0,
  added in order in double arithmetic), rounded to the nearest hundredth and printed
  with two fraction digits: the printed value is a whole number of hundredths within
  0.005 of that sum. For no account at all the balance is \<open>0.00\<close>, with the same
  status.
\<close>

theorem aggregate_balance_rounded:
  assumes "address \<noteq> []" and "addressShapeOk address"
    and "requireRpc env = Inr url" and "requireMint env = Inr mint"
    and "rpc url (trim address) mint = Inr response" and "rpcOk response"
    and "rpcJson response = Inr d" and "dataError d = None" and "resultValue d = Some accts"
    and "list_all (\<lambda>u. 0 \<le> orZero u) accts" and "sumBalances accts < 10 ^ 21"
  shows "usdcBalancePOST env rpc (Inr (Some address)) = Success200 (toFixed2 (sumBalances accts))
       \<and> (\<exists>v. decimalPrefixValue (toFixed2 (sumBalances accts)) = Some v
              \<and> \<bar>v - sumBalances accts\<bar> \<le> 1 / 200 \<and> (\<exists>n::int. v = of_int n / 100))
       \<and> toFixed2 (sumBalances []) = ''0.00''"
proof -
  have t: "totalBalance d = sumBalances accts"
    using assms(9) by (simp add: totalBalance_def)
  have "lookupBalance env rpc address = Inr (toFixed2 (sumBalances accts))"
    using lookupBalance_success[where rpc = rpc and address = address, OF assms(3-8)] t by simp
  then have r: "usdcBalancePOST env rpc (Inr (Some address)) = Success200 (toFixed2 (sumBalances accts))"
    using assms(1,2) by (simp add: usdcBalancePOST_def)
  have z: "toFixed2 (sumBalances []) = ''0.00''" by code_simp
  from r toFixed2_nearest[OF sumBalances_nonneg[OF assms(10)]] z show ?thesis by blast
qed

theorem aggregate_balance_rounded_witness:
  "usdcBalancePOST demoEnv (ledgerWith [Some (1 / 16), Some (1 / 2)]) (Inr (Some demoOwner))
     = Success200 (toFixed2 (sumBalances [Some (1 / 16), Some (1 / 2)]))
   \<and> (\<exists>v. decimalPrefixValue (toFixed2 (sumBalances [Some (1 / 16), Some (1 / 2)])) = Some v
          \<and> \<bar>v - sumBalances [Some (1 / 16), Some (1 / 2)]\<bar> \<le> 1 / 200
          \<and> (\<exists>n::int. v = of_int n / 100))
   \<and> toFixed2 (sumBalances []) = ''0.00''"
proof -
  let ?accts = "[Some (1 / 16), Some (1 / 2 :: rat)]"
  let ?d = "\<lparr>dataError = None, resultValue = Some ?accts\<rparr>"
  let ?response = "\<lparr>rpcOk = True, rpcStatus = 200, rpcJson = Inr ?d\<rparr>"
  have a1: "demoOwner \<noteq> []" by (simp add: demoOwner_def)
  have a2: "addressShapeOk demoOwner" by code_simp
  have a3: "requireRpc demoEnv = Inr ''https://api.devnet.solana.com''" by code_simp
  have a4: "requireMint demoEnv = Inr ''4zMMC9srt5Ri5X14GAgXhaHii3GnPAEERYPJgZJDncDU''" by code_simp
  have a5: "ledgerWith ?accts ''https://api.devnet.solana.com'' (trim demoOwner)
              ''4zMMC9srt5Ri5X14GAgXhaHii3GnPAEERYPJgZJDncDU'' = Inr ?response"
    by (simp add: ledgerWith_def)
  have a6: "rpcOk ?response" by simp
  have a7: "rpcJson ?response = Inr ?d" by simp
  have a8: "dataError ?d = None" by simp
  have a9: "resultValue ?d = Some ?accts" by simp
  have a10: "list_all (\<lambda>u. 0 \<le> orZero u) ?accts" by (simp add: orZero_def)
  have a11: "sumBalances ?accts < 10 ^ 21" by code_simp
  show ?thesis
    by (rule aggregate_balance_rounded[where rpc = "ledgerWith ?accts" and address = demoOwner,
          OF a1 a2 a3 a4 a5 a6 a7 a8 a9 a10 a11])
qed

text \<open>
  Claim C2 says that a sender holding 0.005 who asks to transfer 0.01 is stopped by
  the insufficient-balance gate before any signer is contacted. The aggregator prints
  the balance 0.005 as \<open>0.01\<close>, the gate reads \<open>0.01 USDC\<close> and compares 0.01 with the
  configured 0.01, \<open>hasInsufficientUSDC\<close> stays false, and the transfer handler goes on
  to ask the sender's signer and the sponsor's signer.
\<close>

theorem rounded_balance_passes_gate:
  "usdcBalancePOST demoEnv (ledgerWith [Some (jsLiteral (5 / 1000))]) (Inr (Some demoOwner))
     = Success200 ''0.01''
   \<and> refreshedLabel True (fetchUSDCBalance (Success200 ''0.01'')) = ''0.01 USDC''
   \<and> hasInsufficientUSDC (Some ''0.01 USDC'') (configuredTransferAmount None) False = False
   \<and> fst (handleTransferUSDC True True False demoWorld demoEnv ''userA'' ''userB'' ''dev''
            (configuredTransferAmount None))
     = [GetAccountInfo ''ata-userB'', GetLatestBlockhash,
        SignTransaction
          \<lparr>instructions = [Transfer ''ata-userA'' ''ata-userB'' ''userA''
                             (transferAmount (configuredTransferAmount None))],
           recentBlockhash = Some ''blockhash-1'', feePayer = Some ''dev'', signatures = []\<rparr>
          (configuredTransferAmount None),
        FetchSign (SponsorBody ''0x03'' sponsorReason),
        SendRawTransaction [2, 3], ConfirmTransaction ''tx-1'']"
proof -
  have 1: "usdcBalancePOST demoEnv (ledgerWith [Some (jsLiteral (5 / 1000))]) (Inr (Some demoOwner))
     = Success200 ''0.01''" by code_simp
  have 2: "refreshedLabel True (fetchUSDCBalance (Success200 ''0.01'')) = ''0.01 USDC''"
    by (simp add: refreshedLabel_def fetchUSDCBalance_def)
  have 3: "hasInsufficientUSDC (Some ''0.01 USDC'') (configuredTransferAmount None) False = False"
    by code_simp
  have 4: "fst (handleTransferUSDC True True False demoWorld demoEnv ''userA'' ''userB'' ''dev''
            (configuredTransferAmount None))
     = [GetAccountInfo ''ata-userB'', GetLatestBlockhash,
        SignTransaction
          \<lparr>instructions = [Transfer ''ata-userA'' ''ata-userB'' ''userA''
                             (transferAmount (configuredTransferAmount None))],
           recentBlockhash = Some ''blockhash-1'', feePayer = Some ''dev'', signatures = []\<rparr>
          (configuredTransferAmount None),
        FetchSign (SponsorBody ''0x03'' sponsorReason),
        SendRawTransaction [2, 3], ConfirmTransaction ''tx-1'']"
    by (simp add: handleTransferUSDC_def transferUSDC_events flow_eval)
  from 1 2 3 4 show ?thesis by blast
qed

end
